theory Spec2Isabelle
  imports Main "HOL-Library.AList"
begin

section \<open>Common values\<close>

text \<open>
  JavaScript exceptions and promise rejections carry an \<open>Error\<close> object; the model keeps
  its message.
\<close>

datatype error = Error string

section \<open>Peer identity (src/connection/PeerInfo, known through test/unit/PeerInfo.test.js)\<close>

record peer_info =
  peerId :: string
  peerType :: string

text \<open>
  Modelled from the spec: the class \<open>PeerInfo\<close> itself is not among the source files, only
  its unit test is. The spec gives the closed set of peer types; the strings are the ones the
  test reads back through \<open>toString\<close> and \<open>fromObject\<close>.
\<close>

definition peerTypes :: "string list" where
  "peerTypes = [''node'', ''storage'', ''tracker'', ''unknown'']"

text \<open>
  Modelled from the spec: the constructor of \<open>PeerInfo\<close> (source file missing):
  "Construction with any type outside the set fails."
\<close>

definition PeerInfo_new :: "string \<Rightarrow> string \<Rightarrow> error + peer_info" where
  "PeerInfo_new pid ty =
     (if ty \<in> set peerTypes then Inr \<lparr>peerId = pid, peerType = ty\<rparr>
      else Inl (Error (''peerType '' @ ty @ '' not in peerTypes list'')))"

text \<open>
  Modelled from the spec: the derived queries of \<open>PeerInfo\<close> (source file missing):
  "Queries isNode()/isStorage()/isTracker() are derived; storage is a node."
\<close>

definition isStorage :: "peer_info \<Rightarrow> bool" where
  "isStorage p = (peerType p = ''storage'')"

definition isTracker :: "peer_info \<Rightarrow> bool" where
  "isTracker p = (peerType p = ''tracker'')"

definition isNode :: "peer_info \<Rightarrow> bool" where
  "isNode p = (peerType p = ''node'' \<or> isStorage p)"

text \<open>The static constructors the test uses in its \<open>beforeEach\<close>.\<close>

definition PeerInfo_newNode :: "string \<Rightarrow> error + peer_info" where
  "PeerInfo_newNode pid = PeerInfo_new pid ''node''"

definition PeerInfo_newStorage :: "string \<Rightarrow> error + peer_info" where
  "PeerInfo_newStorage pid = PeerInfo_new pid ''storage''"

definition PeerInfo_newTracker :: "string \<Rightarrow> error + peer_info" where
  "PeerInfo_newTracker pid = PeerInfo_new pid ''tracker''"

definition PeerInfo_newUnknown :: "string \<Rightarrow> error + peer_info" where
  "PeerInfo_newUnknown pid = PeerInfo_new pid ''unknown''"

section \<open>Peer book (src/connection/PeerBook)\<close>

text \<open>
  Modelled from the spec: the class \<open>PeerBook\<close> is not among the source files; the endpoint
  only calls it. The spec: "A mapping between peer identifier and transport address. Each
  direction must be a function. Lookups fail explicitly when absent."
\<close>

record peer_book =
  idToAddress :: "string \<rightharpoonup> string"
  addressToInfo :: "string \<rightharpoonup> peer_info"

definition PeerBook_new :: peer_book where
  "PeerBook_new = \<lparr>idToAddress = Map.empty, addressToInfo = Map.empty\<rparr>"

definition PeerBook_add :: "string \<Rightarrow> peer_info \<Rightarrow> peer_book \<Rightarrow> peer_book" where
  "PeerBook_add address info pb =
     pb\<lparr>idToAddress := (idToAddress pb)(peerId info \<mapsto> address),
        addressToInfo := (addressToInfo pb)(address \<mapsto> info)\<rparr>"

definition PeerBook_getAddress :: "peer_book \<Rightarrow> string \<Rightarrow> error + string" where
  "PeerBook_getAddress pb pid =
     (case idToAddress pb pid of
        None \<Rightarrow> Inl (Error (''Id '' @ pid @ '' not found in peer book''))
      | Some a \<Rightarrow> Inr a)"

definition PeerBook_getPeerInfo :: "peer_book \<Rightarrow> string \<Rightarrow> error + peer_info" where
  "PeerBook_getPeerInfo pb address =
     (case addressToInfo pb address of
        None \<Rightarrow> Inl (Error (''Address '' @ address @ '' not found in peer book''))
      | Some i \<Rightarrow> Inr i)"

definition PeerBook_getPeerId :: "peer_book \<Rightarrow> string \<Rightarrow> error + string" where
  "PeerBook_getPeerId pb address =
     (case PeerBook_getPeerInfo pb address of Inl e \<Rightarrow> Inl e | Inr i \<Rightarrow> Inr (peerId i))"

section \<open>WebSocket endpoint (src/connection/WsEndpoint.js): constants\<close>

definition HIGH_BACK_PRESSURE :: nat where
  "HIGH_BACK_PRESSURE = 1024 * 1024 * 2"

definition LOW_BACK_PRESSURE :: nat where
  "LOW_BACK_PRESSURE = 1024 * 1024"

definition WS_BUFFER_SIZE :: nat where
  "WS_BUFFER_SIZE = HIGH_BACK_PRESSURE + 1024"

definition events_PEER_CONNECTED :: string where
  "events_PEER_CONNECTED = ''streamr:peer:connect''"

definition events_PEER_DISCONNECTED :: string where
  "events_PEER_DISCONNECTED = ''streamr:peer:disconnect''"

definition events_MESSAGE_RECEIVED :: string where
  "events_MESSAGE_RECEIVED = ''streamr:message-received''"

definition events_HIGH_BACK_PRESSURE :: string where
  "events_HIGH_BACK_PRESSURE = ''streamr:high-back-pressure''"

definition events_LOW_BACK_PRESSURE :: string where
  "events_LOW_BACK_PRESSURE = ''streamr:low-back-pressure''"

definition disconnectionCodes_GRACEFUL_SHUTDOWN :: nat where
  "disconnectionCodes_GRACEFUL_SHUTDOWN = 1000"

definition disconnectionCodes_DUPLICATE_SOCKET :: nat where
  "disconnectionCodes_DUPLICATE_SOCKET = 1002"

definition disconnectionCodes_MISSING_REQUIRED_PARAMETER :: nat where
  "disconnectionCodes_MISSING_REQUIRED_PARAMETER = 1002"

definition disconnectionCodes_DEAD_CONNECTION :: nat where
  "disconnectionCodes_DEAD_CONNECTION = 1002"

definition disconnectionReasons_GRACEFUL_SHUTDOWN :: string where
  "disconnectionReasons_GRACEFUL_SHUTDOWN = ''streamr:node:graceful-shutdown''"

definition disconnectionReasons_DUPLICATE_SOCKET :: string where
  "disconnectionReasons_DUPLICATE_SOCKET = ''streamr:endpoint:duplicate-connection''"

definition disconnectionReasons_DEAD_CONNECTION :: string where
  "disconnectionReasons_DEAD_CONNECTION = ''streamr:endpoint:dead-connection''"

text \<open>The options object the constructor hands to \<open>wss.ws('/ws', {...})\<close>.\<close>

record ws_options =
  compression :: nat
  maxPayloadLength :: nat
  maxBackpressure :: nat
  idleTimeout :: nat

definition wss_ws_options :: ws_options where
  "wss_ws_options =
     \<lparr>compression = 0,
      maxPayloadLength = 1024 * 1024,
      maxBackpressure = WS_BUFFER_SIZE,
      idleTimeout = 0\<rparr>"

section \<open>WebSocket endpoint: sockets and endpoint state\<close>

text \<open>
  The endpoint handles sockets of two libraries: the client sockets of ws/ws that
  \<open>connect\<close> opens, and the server sockets of uWebSockets.js that arrive through the
  \<open>open\<close> handler. The source tells them apart by three tests, which the comments there
  explain ("only ws/ws lib has terminate method", "only uws lib has getBufferedAmount
  method").
\<close>

datatype ws_impl = WsLib | UWS

definition has_terminate :: "ws_impl \<Rightarrow> bool" where
  "has_terminate i = (i = WsLib)"

definition has_getBufferedAmount :: "ws_impl \<Rightarrow> bool" where
  "has_getBufferedAmount i = (i = UWS)"

definition constructor_name :: "ws_impl \<Rightarrow> string" where
  "constructor_name i = (case i of UWS \<Rightarrow> ''uWS.WebSocket'' | WsLib \<Rightarrow> ''WebSocket'')"

text \<open>The calls the endpoint makes on a socket; each socket keeps the log of them.\<close>

datatype ws_call =
    CallClose nat string
  | CallClose0
  | CallEnd nat string
  | CallTerminate
  | CallPing
  | CallSend string

text \<open>\<open>Date.now() - ws.rttStart\<close> is \<open>NaN\<close> while \<open>rttStart\<close> is undefined.\<close>

datatype rtt_value = Millis int | NaN

text \<open>
  A socket object. The fields up to \<open>highBackPressure\<close> are the properties the endpoint
  reads and writes (\<open>None\<close> is \<open>undefined\<close>). \<open>bufferedAmount\<close>, \<open>readyState\<close> and
  \<open>OPEN\<close> are what the library reports. \<open>throws\<close> and \<open>sendError\<close> are the behaviour of
  the library on this socket: which call raises, and which error the ws/ws send callback
  receives.
\<close>

record websocket =
  impl :: ws_impl
  ws_address :: "string option"
  ws_peerId :: "string option"
  ws_peerType :: "string option"
  ws_peerInfo :: "peer_info option"
  respondedPong :: "bool option"
  rttStart :: "int option"
  rtt :: "rtt_value option"
  highBackPressure :: "bool option"
  bufferedAmount :: nat
  readyState :: "nat option"
  OPEN :: "nat option"
  calls :: "ws_call list"
  throws :: "ws_call \<Rightarrow> error option"
  sendError :: "string \<Rightarrow> error option"

datatype promise_state = Pending | Resolved string | Rejected error

text \<open>
  The closure of one outbound dial made by \<open>connect\<close>: the URL and headers given to
  \<open>new WebSocket\<close>, the address and the promise, the variable \<open>serverPeerInfo\<close>, and
  whether \<open>_addListeners\<close> has put the message, pong and close listeners on the socket.
\<close>

record dial =
  dial_url :: string
  dial_headers :: "(string \<times> string) list"
  dial_address :: string
  dial_promise :: nat
  serverPeerInfo :: "peer_info option"
  listening :: bool

datatype event_arg = ArgPeer "peer_info option" | ArgStr string | ArgWs nat | ArgNum nat

text \<open>
  The endpoint. \<open>connections\<close> and \<open>pendingConnections\<close> are JavaScript Maps: association
  lists in insertion order, holding references into the heaps \<open>sockets\<close> and \<open>promises\<close>.
  \<open>emitted\<close> is the log of \<open>this.emit\<close>, \<open>metrics\<close> the log of \<open>this.metrics.record\<close>.
  \<open>localeCompare\<close> is \<open>String.prototype.localeCompare\<close> of the runtime, which the
  source calls as \<open>this.getAddress().localeCompare(address)\<close>: the order is the one of
  the runtime's collation, and nothing is assumed about it here.
\<close>

record endpoint =
  serverHost :: string
  serverPort :: nat
  peerInfo :: peer_info
  advertisedWsUrl :: "string option"
  localeCompare :: "string \<Rightarrow> string \<Rightarrow> int"
  connections :: "(string \<times> nat) list"
  pendingConnections :: "(string \<times> nat) list"
  peerBook :: peer_book
  sockets :: "nat \<Rightarrow> websocket"
  nextSocket :: nat
  promises :: "nat \<Rightarrow> promise_state"
  nextPromise :: nat
  dials :: "(nat \<times> dial) list"
  emitted :: "(string \<times> event_arg list) list"
  metrics :: "(string \<times> nat) list"

definition truthy :: "bool option \<Rightarrow> bool" where
  "truthy b = (b = Some True)"

definition emit :: "string \<Rightarrow> event_arg list \<Rightarrow> endpoint \<Rightarrow> endpoint" where
  "emit name args st = st\<lparr>emitted := emitted st @ [(name, args)]\<rparr>"

definition metrics_record :: "string \<Rightarrow> nat \<Rightarrow> endpoint \<Rightarrow> endpoint" where
  "metrics_record name v st = st\<lparr>metrics := metrics st @ [(name, v)]\<rparr>"

definition update_socket :: "nat \<Rightarrow> (websocket \<Rightarrow> websocket) \<Rightarrow> endpoint \<Rightarrow> endpoint" where
  "update_socket ws f st = st\<lparr>sockets := (sockets st)(ws := f (sockets st ws))\<rparr>"

definition getBufferedAmount :: "websocket \<Rightarrow> nat" where
  "getBufferedAmount sock =
     (if has_getBufferedAmount (impl sock) then bufferedAmount sock else bufferedAmount sock)"

section \<open>WebSocket endpoint: back pressure\<close>

definition WsEndpoint_evaluateBackPressure :: "nat \<Rightarrow> endpoint \<Rightarrow> endpoint" where
  "WsEndpoint_evaluateBackPressure ws st =
     (let sock = sockets st ws;
          amount = getBufferedAmount sock
      in if \<not> truthy (highBackPressure sock) \<and> amount > HIGH_BACK_PRESSURE then
           update_socket ws (\<lambda>s. s\<lparr>highBackPressure := Some True\<rparr>)
             (emit events_HIGH_BACK_PRESSURE [ArgPeer (ws_peerInfo sock)] st)
         else if truthy (highBackPressure sock) \<and> amount < LOW_BACK_PRESSURE then
           update_socket ws (\<lambda>s. s\<lparr>highBackPressure := Some False\<rparr>)
             (emit events_LOW_BACK_PRESSURE [ArgPeer (ws_peerInfo sock)] st)
         else st)"

text \<open>The \<open>drain\<close> handler of the server: \<open>drain: (ws) => this._evaluateBackPressure(ws)\<close>.\<close>

definition WsEndpoint_drain :: "nat \<Rightarrow> endpoint \<Rightarrow> endpoint" where
  "WsEndpoint_drain ws st = WsEndpoint_evaluateBackPressure ws st"

section \<open>WebSocket endpoint: closing sockets, connection bookkeeping\<close>

text \<open>
  A method of the endpoint either returns, or throws with the state as it was at the throw.
\<close>

datatype 'a js = Return 'a endpoint | Throw error endpoint

fun state_of :: "'a js \<Rightarrow> endpoint" where
  "state_of (Return _ st) = st"
| "state_of (Throw _ st) = st"

text \<open>A call on a socket: it is logged on the socket, and the library may raise.\<close>

definition invoke :: "nat \<Rightarrow> ws_call \<Rightarrow> endpoint \<Rightarrow> error option \<times> endpoint" where
  "invoke ws c st =
     (throws (sockets st ws) c, update_socket ws (\<lambda>s. s\<lparr>calls := calls s @ [c]\<rparr>) st)"

text \<open>\<open>closeWs\<close> and \<open>terminateWs\<close> catch what the library raises (and log it).\<close>

definition closeWs :: "nat \<Rightarrow> nat \<Rightarrow> string \<Rightarrow> endpoint \<Rightarrow> endpoint" where
  "closeWs ws code reason st =
     (if has_terminate (impl (sockets st ws)) then snd (invoke ws (CallClose code reason) st)
      else snd (invoke ws (CallEnd code reason) st))"

definition terminateWs :: "nat \<Rightarrow> endpoint \<Rightarrow> endpoint" where
  "terminateWs ws st =
     (if has_terminate (impl (sockets st ws)) then snd (invoke ws CallTerminate st)
      else snd (invoke ws CallClose0 st))"

text \<open>The decimal digits of a port number, for the template literal of \<open>getAddress\<close>.\<close>

function showNat :: "nat \<Rightarrow> string" where
  "showNat n =
     (if n < 10 then [char_of (48 + n)] else showNat (n div 10) @ [char_of (48 + n mod 10)])"
  by pat_completeness auto
termination
  by (relation "measure id") auto

declare showNat.simps [simp del]

definition truthy_str :: "string option \<Rightarrow> bool" where
  "truthy_str s = (case s of None \<Rightarrow> False | Some x \<Rightarrow> x \<noteq> [])"

definition WsEndpoint_getAddress :: "endpoint \<Rightarrow> string" where
  "WsEndpoint_getAddress st =
     (if truthy_str (advertisedWsUrl st) then the (advertisedWsUrl st)
      else ''ws://'' @ serverHost st @ '':'' @ showNat (serverPort st))"

definition WsEndpoint_isConnected :: "string \<Rightarrow> endpoint \<Rightarrow> bool" where
  "WsEndpoint_isConnected address st = (map_of (connections st) address \<noteq> None)"

definition WsEndpoint_resolveAddress :: "string \<Rightarrow> endpoint \<Rightarrow> error + string" where
  "WsEndpoint_resolveAddress pid st = PeerBook_getAddress (peerBook st) pid"

definition WsEndpoint_onClose ::
  "string \<Rightarrow> peer_info \<Rightarrow> nat \<Rightarrow> string \<Rightarrow> endpoint \<Rightarrow> unit js" where
  "WsEndpoint_onClose address info code reason st =
     (if reason = disconnectionReasons_DUPLICATE_SOCKET then
        Return () (metrics_record ''open:duplicateSocket'' 1 st)
      else
        let st1 = metrics_record ''close'' 1 st;
            st2 = st1\<lparr>connections := AList.delete address (connections st1)\<rparr>
        in (case PeerBook_getPeerId (peerBook st2) address of
              Inl e \<Rightarrow> Throw e st2
            | Inr _ \<Rightarrow>
                Return () (emit events_PEER_DISCONNECTED [ArgPeer (Some info), ArgStr reason] st2)))"

definition WsEndpoint_onNewConnection ::
  "nat \<Rightarrow> string \<Rightarrow> peer_info \<Rightarrow> bool \<Rightarrow> endpoint \<Rightarrow> bool \<times> endpoint" where
  "WsEndpoint_onNewConnection ws address info out st =
     (if WsEndpoint_isConnected address st
         \<and> localeCompare st (WsEndpoint_getAddress st) address = 1 then
        (False,
         closeWs ws disconnectionCodes_DUPLICATE_SOCKET disconnectionReasons_DUPLICATE_SOCKET
           (metrics_record ''open:duplicateSocket'' 1 st))
      else
        let st1 = update_socket ws (\<lambda>s. s\<lparr>ws_peerInfo := Some info, ws_address := Some address\<rparr>) st;
            st2 = st1\<lparr>peerBook := PeerBook_add address info (peerBook st1)\<rparr>;
            st3 = st2\<lparr>connections := AList.update address ws (connections st2)\<rparr>;
            st4 = metrics_record ''open'' 1 st3
        in (True, emit events_PEER_CONNECTED [ArgPeer (Some info)] st4))"

text \<open>\<open>e.toString()\<close> of an \<open>Error\<close>.\<close>

fun error_toString :: "error \<Rightarrow> string" where
  "error_toString (Error m) = ''Error: '' @ m"

text \<open>The \<open>catch\<close> block of \<open>_onIncomingConnection\<close>.\<close>

definition dropIncoming :: "nat \<Rightarrow> error \<Rightarrow> endpoint \<Rightarrow> endpoint" where
  "dropIncoming ws e st =
     closeWs ws disconnectionCodes_MISSING_REQUIRED_PARAMETER (error_toString e)
       (metrics_record ''open:missingParameter'' 1 st)"

definition WsEndpoint_onIncomingConnection :: "nat \<Rightarrow> endpoint \<Rightarrow> endpoint" where
  "WsEndpoint_onIncomingConnection ws st =
     (let sock = sockets st ws in
      if \<not> truthy_str (ws_address sock) then dropIncoming ws (Error ''address not given'') st
      else if \<not> truthy_str (ws_peerId sock) then dropIncoming ws (Error ''peerId not given'') st
      else if \<not> truthy_str (ws_peerType sock) then dropIncoming ws (Error ''peerType not given'') st
      else
        case PeerInfo_new (the (ws_peerId sock)) (the (ws_peerType sock)) of
          Inl e \<Rightarrow> dropIncoming ws e st
        | Inr clientPeerInfo \<Rightarrow>
            if WsEndpoint_isConnected (the (ws_address sock)) st then
              (case invoke ws (CallClose disconnectionCodes_DUPLICATE_SOCKET
                                 disconnectionReasons_DUPLICATE_SOCKET)
                      (metrics_record ''open:duplicateSocket'' 1 st) of
                 (Some e, st') \<Rightarrow> dropIncoming ws e st'
               | (None, st') \<Rightarrow> st')
            else
              snd (WsEndpoint_onNewConnection ws (the (ws_address sock)) clientPeerInfo False
                     (emit ''connection'' [ArgWs ws] st)))"

text \<open>
  The \<open>close\<close> handler of the server (uWebSockets.js sockets), and the \<open>close\<close> listener
  that \<open>_addListeners\<close> puts on a client socket for the address it was dialled at.
\<close>

definition WsEndpoint_server_close :: "nat \<Rightarrow> nat \<Rightarrow> string \<Rightarrow> endpoint \<Rightarrow> unit js" where
  "WsEndpoint_server_close ws code reason st =
     (case ws_address (sockets st ws) of
        None \<Rightarrow> Return () st
      | Some address \<Rightarrow>
          (case map_of (connections st) address of
             None \<Rightarrow> Return () st
           | Some connection \<Rightarrow>
               (let st1 = emit ''close'' [ArgWs ws, ArgNum code, ArgStr reason] st in
                (case PeerBook_getPeerInfo (peerBook st1) address of
                   Inl e \<Rightarrow> Throw e st1
                 | Inr info \<Rightarrow> WsEndpoint_onClose address info code reason st1))))"

definition WsEndpoint_client_close :: "string \<Rightarrow> nat \<Rightarrow> string \<Rightarrow> endpoint \<Rightarrow> unit js" where
  "WsEndpoint_client_close address code reason st =
     (if reason = disconnectionReasons_DUPLICATE_SOCKET then
        Return () (metrics_record ''open:duplicateSocket'' 1 st)
      else
        (case PeerBook_getPeerInfo (peerBook st) address of
           Inl e \<Rightarrow> Throw e st
         | Inr info \<Rightarrow> WsEndpoint_onClose address info code reason st))"

text \<open>
  A socket object as the libraries hand it over, before the endpoint has touched it, and
  the endpoint as its constructor leaves it.
\<close>

definition WebSocket_new :: "ws_impl \<Rightarrow> websocket" where
  "WebSocket_new i =
     \<lparr>impl = i, ws_address = None, ws_peerId = None, ws_peerType = None, ws_peerInfo = None,
      respondedPong = None, rttStart = None, rtt = None, highBackPressure = None,
      bufferedAmount = 0,
      readyState = (case i of WsLib \<Rightarrow> Some 0 | UWS \<Rightarrow> None),
      OPEN = (case i of WsLib \<Rightarrow> Some 1 | UWS \<Rightarrow> None),
      calls = [], throws = (\<lambda>_. None), sendError = (\<lambda>_. None)\<rparr>"

definition WsEndpoint_new ::
  "string \<Rightarrow> nat \<Rightarrow> peer_info \<Rightarrow> string option \<Rightarrow> (string \<Rightarrow> string \<Rightarrow> int) \<Rightarrow> endpoint" where
  "WsEndpoint_new host port info url cmp =
     \<lparr>serverHost = host, serverPort = port, peerInfo = info, advertisedWsUrl = url,
      localeCompare = cmp, connections = [], pendingConnections = [],
      peerBook = PeerBook_new, sockets = (\<lambda>_. WebSocket_new WsLib), nextSocket = 0,
      promises = (\<lambda>_. Pending), nextPromise = 0, dials = [], emitted = [], metrics = []\<rparr>"

section \<open>WebSocket endpoint: liveness\<close>

text \<open>
  The \<open>catch\<close> block of \<open>_pingConnections\<close>: the socket is terminated and the connection
  is surfaced as closed with the dead-connection code and reason.
\<close>

definition pingFailed :: "nat option \<Rightarrow> string \<Rightarrow> endpoint \<Rightarrow> unit js" where
  "pingFailed ws address st =
     (let st1 = (case ws of None \<Rightarrow> st | Some w \<Rightarrow> terminateWs w st) in
      (case PeerBook_getPeerInfo (peerBook st1) address of
         Inl e \<Rightarrow> Throw e st1
       | Inr info \<Rightarrow>
           WsEndpoint_onClose address info disconnectionCodes_DEAD_CONNECTION
             disconnectionReasons_DEAD_CONNECTION st1))"

text \<open>
  The body of the \<open>forEach\<close> of \<open>_pingConnections\<close> for one address; \<open>now\<close> is what
  \<open>Date.now()\<close> returns there. An address without a socket makes \<open>ws.respondedPong\<close>
  raise inside the \<open>try\<close>, which leads to the \<open>catch\<close> block as well.
\<close>

definition pingConnection :: "int \<Rightarrow> string \<Rightarrow> endpoint \<Rightarrow> unit js" where
  "pingConnection now address st =
     (case map_of (connections st) address of
        None \<Rightarrow> pingFailed None address st
      | Some ws \<Rightarrow>
          if respondedPong (sockets st ws) \<noteq> None \<and> \<not> truthy (respondedPong (sockets st ws)) then
            pingFailed (Some ws) address st
          else
            (case invoke ws CallPing
                    (update_socket ws (\<lambda>s. s\<lparr>respondedPong := Some False, rttStart := Some now\<rparr>) st) of
               (Some e, st') \<Rightarrow> pingFailed (Some ws) address st'
             | (None, st') \<Rightarrow> Return () st'))"

fun pingEach :: "(string \<Rightarrow> int) \<Rightarrow> string list \<Rightarrow> endpoint \<Rightarrow> unit js" where
  "pingEach now [] st = Return () st"
| "pingEach now (address # addresses) st =
     (case pingConnection (now address) address st of
        Throw e st' \<Rightarrow> Throw e st'
      | Return _ st' \<Rightarrow> pingEach now addresses st')"

definition WsEndpoint_pingConnections :: "(string \<Rightarrow> int) \<Rightarrow> endpoint \<Rightarrow> unit js" where
  "WsEndpoint_pingConnections now st = pingEach now (map fst (connections st)) st"

definition ponged :: "int \<Rightarrow> websocket \<Rightarrow> websocket" where
  "ponged now s =
     s\<lparr>respondedPong := Some True,
       rtt := Some (case rttStart s of None \<Rightarrow> NaN | Some t \<Rightarrow> Millis (now - t))\<rparr>"

text \<open>The \<open>pong\<close> listener that \<open>_addListeners\<close> puts on a client socket.\<close>

definition WsEndpoint_client_pong :: "int \<Rightarrow> nat \<Rightarrow> endpoint \<Rightarrow> endpoint" where
  "WsEndpoint_client_pong now ws st = update_socket ws (ponged now) st"

text \<open>The \<open>pong\<close> handler of the server: it updates the connection registered at \<open>ws.address\<close>.\<close>

definition WsEndpoint_server_pong :: "int \<Rightarrow> nat \<Rightarrow> endpoint \<Rightarrow> endpoint" where
  "WsEndpoint_server_pong now ws st =
     (case ws_address (sockets st ws) of
        None \<Rightarrow> st
      | Some address \<Rightarrow>
          (case map_of (connections st) address of
             None \<Rightarrow> st
           | Some connection \<Rightarrow> update_socket connection (ponged now) st))"

text \<open>
  What one firing of the liveness timer does to the connection that \<open>st\<close> holds for the
  address \<open>a\<close> with the socket \<open>ws\<close>, as seen in the state \<open>st'\<close> after the firing.
  A connection whose last ping was not answered (\<open>respondedPong\<close> is false) has its socket
  terminated, its entry removed and is reported as disconnected with the dead-connection
  reason; any other connection has the flag cleared, \<open>rttStart\<close> set and \<open>ping\<close> called,
  and is kept, unless the library raises on that \<open>ping\<close>: then it ends as the dead one.
\<close>

definition pinged :: "(string \<Rightarrow> int) \<Rightarrow> endpoint \<Rightarrow> endpoint \<Rightarrow> string \<Rightarrow> nat \<Rightarrow> bool" where
  "pinged now st st' a ws =
     (let s = sockets st ws;
          disconnected = (events_PEER_DISCONNECTED,
                          [ArgPeer (addressToInfo (peerBook st) a),
                           ArgStr disconnectionReasons_DEAD_CONNECTION]);
          terminate = (if impl s = WsLib then CallTerminate else CallClose0)
      in if respondedPong s = Some False then
           sockets st' ws = s\<lparr>calls := calls s @ [terminate]\<rparr>
           \<and> map_of (connections st') a = None
           \<and> disconnected \<in> set (emitted st')
         else if throws s CallPing = None then
           sockets st' ws = s\<lparr>respondedPong := Some False, rttStart := Some (now a),
                               calls := calls s @ [CallPing]\<rparr>
           \<and> map_of (connections st') a = Some ws
         else
           sockets st' ws = s\<lparr>respondedPong := Some False, rttStart := Some (now a),
                               calls := calls s @ [CallPing, terminate]\<rparr>
           \<and> map_of (connections st') a = None
           \<and> disconnected \<in> set (emitted st'))"

section \<open>WebSocket endpoint: send and close\<close>

text \<open>
  \<open>_socketSend\<close>. The result is the state in which the promise of \<open>send\<close> is left:
  \<open>Pending\<close> when neither callback is called.
\<close>

definition onSuccess :: "string \<Rightarrow> endpoint \<Rightarrow> endpoint" where
  "onSuccess msg st =
     metrics_record ''msgOutSpeed'' 1
       (metrics_record ''msgSpeed'' 1 (metrics_record ''outSpeed'' (length msg) st))"

definition WsEndpoint_socketSend ::
  "nat \<Rightarrow> string \<Rightarrow> string \<Rightarrow> string \<Rightarrow> endpoint \<Rightarrow> promise_state \<times> endpoint" where
  "WsEndpoint_socketSend ws message recipientId recipientAddress st =
     (case invoke ws (CallSend message) st of
        (Some e, st1) \<Rightarrow> (Pending, terminateWs ws (metrics_record ''sendFailed'' 1 st1))
      | (None, st1) \<Rightarrow>
          if constructor_name (impl (sockets st1 ws)) = ''uWS.WebSocket'' then
            (Resolved recipientId, WsEndpoint_evaluateBackPressure ws (onSuccess message st1))
          else
            (case sendError (sockets st1 ws) message of
               Some err \<Rightarrow>
                 (Rejected err,
                  WsEndpoint_evaluateBackPressure ws (metrics_record ''sendFailed'' 1 st1))
             | None \<Rightarrow>
                 (Resolved recipientId,
                  WsEndpoint_evaluateBackPressure ws (onSuccess message st1))))"

definition WsEndpoint_send :: "string \<Rightarrow> string \<Rightarrow> endpoint \<Rightarrow> promise_state js" where
  "WsEndpoint_send recipientId message st =
     (case WsEndpoint_resolveAddress recipientId st of
        Inl e \<Rightarrow> Throw e st
      | Inr recipientAddress \<Rightarrow>
          (case map_of (connections st) recipientAddress of
             None \<Rightarrow>
               Return
                 (Rejected (Error (''cannot send to '' @ recipientAddress @ '' because not connected'')))
                 (metrics_record ''sendFailed'' 1 st)
           | Some ws \<Rightarrow>
               (case WsEndpoint_socketSend ws message recipientId recipientAddress st of
                  (p, st') \<Rightarrow> Return p st')))"

definition WsEndpoint_close :: "string \<Rightarrow> string \<Rightarrow> endpoint \<Rightarrow> unit js" where
  "WsEndpoint_close recipientId reason st =
     (case WsEndpoint_resolveAddress recipientId st of
        Inl e \<Rightarrow> Throw e st
      | Inr recipientAddress \<Rightarrow>
          (let st1 = metrics_record ''close'' 1 st in
           (case map_of (connections st1) recipientAddress of
              None \<Rightarrow> Return () st1
            | Some ws \<Rightarrow>
                Return () (closeWs ws disconnectionCodes_GRACEFUL_SHUTDOWN reason st1))))"

section \<open>WebSocket endpoint: connect\<close>

definition Promise_new :: "promise_state \<Rightarrow> endpoint \<Rightarrow> nat \<times> endpoint" where
  "Promise_new s st =
     (nextPromise st,
      st\<lparr>promises := (promises st)(nextPromise st := s), nextPromise := Suc (nextPromise st)\<rparr>)"

text \<open>
  Settling the promise of a dial, by \<open>resolve\<close> or \<open>reject\<close>: only the first call counts,
  and it runs the \<open>finally\<close> callback, which deletes the pending entry of the address.
\<close>

definition settle :: "nat \<Rightarrow> string \<Rightarrow> promise_state \<Rightarrow> endpoint \<Rightarrow> endpoint" where
  "settle p peerAddress outcome st =
     (if promises st p = Pending then
        st\<lparr>promises := (promises st)(p := outcome),
           pendingConnections := AList.delete peerAddress (pendingConnections st)\<rparr>
      else st)"

text \<open>
  The first block of \<open>connect\<close>, for an address that is already connected: the promise it
  returns, or \<open>None\<close> when \<open>connect\<close> goes on.
\<close>

definition connect_existing :: "string \<Rightarrow> endpoint \<Rightarrow> nat option js" where
  "connect_existing peerAddress st =
     (case map_of (connections st) peerAddress of
        None \<Rightarrow> Return None st
      | Some ws \<Rightarrow>
          (case PeerBook_getPeerId (peerBook st) peerAddress of
             Inl e \<Rightarrow> Throw e st
           | Inr pid \<Rightarrow>
               if readyState (sockets st ws) = OPEN (sockets st ws) then
                 (case Promise_new (Resolved pid) st of (p, st') \<Rightarrow> Return (Some p) st')
               else
                 (case WsEndpoint_close pid disconnectionReasons_GRACEFUL_SHUTDOWN st of
                    Throw e st' \<Rightarrow> Throw e st'
                  | Return _ st' \<Rightarrow> Return None st')))"

definition toHeaders :: "peer_info \<Rightarrow> (string \<times> string) list" where
  "toHeaders info = [(''streamr-peer-id'', peerId info), (''streamr-peer-type'', peerType info)]"

text \<open>
  \<open>connect\<close>. \<open>ctor\<close> is what \<open>new WebSocket(...)\<close> does: it raises, or it yields the
  socket object. The result is the reference of the promise returned. When the constructor
  raises, the promise is rejected at once, and its \<open>finally\<close> callback, a microtask, runs
  after the rest of \<open>connect\<close> has stored the promise.
\<close>

definition WsEndpoint_connect :: "string \<Rightarrow> error + websocket \<Rightarrow> endpoint \<Rightarrow> nat js" where
  "WsEndpoint_connect peerAddress ctor st =
     (case connect_existing peerAddress st of
        Throw e st' \<Rightarrow> Throw e st'
      | Return (Some p) st' \<Rightarrow> Return p st'
      | Return None st1 \<Rightarrow>
          if peerAddress = WsEndpoint_getAddress st1 then
            (case Promise_new (Rejected (Error ''trying to connect to own address''))
                    (metrics_record ''open:ownAddress'' 1 st1) of
               (p, st2) \<Rightarrow> Return p st2)
          else
            (case map_of (pendingConnections st1) peerAddress of
               Some p \<Rightarrow> Return p st1
             | None \<Rightarrow>
                 (case ctor of
                    Inl err \<Rightarrow>
                      (case Promise_new (Rejected err)
                              (metrics_record ''open:failedException'' 1 st1) of
                         (p, st2) \<Rightarrow>
                           Return p
                             (st2\<lparr>pendingConnections :=
                                    AList.delete peerAddress
                                      (AList.update peerAddress p (pendingConnections st2))\<rparr>))
                  | Inr sock \<Rightarrow>
                      (case Promise_new Pending st1 of
                         (p, st2) \<Rightarrow>
                           Return p
                             (st2\<lparr>sockets := (sockets st2)(nextSocket st2 := sock),
                                  nextSocket := Suc (nextSocket st2),
                                  dials := dials st2 @
                                    [(nextSocket st2,
                                      \<lparr>dial_url = peerAddress @ ''/ws?address='' @
                                         WsEndpoint_getAddress st2,
                                       dial_headers = toHeaders (peerInfo st2),
                                       dial_address = peerAddress, dial_promise = p,
                                       serverPeerInfo = None, listening = False\<rparr>)],
                                  pendingConnections :=
                                    AList.update peerAddress p (pendingConnections st2)\<rparr>)))))"

text \<open>
  The listeners \<open>connect\<close> puts on the socket it dials: \<open>upgrade\<close> (with the two headers
  of the response), \<open>open\<close> and \<open>error\<close>.
\<close>

definition dial_upgrade :: "nat \<Rightarrow> string option \<Rightarrow> string option \<Rightarrow> endpoint \<Rightarrow> unit js" where
  "dial_upgrade ws pid ptype st =
     (case map_of (dials st) ws of
        None \<Rightarrow> Return () st
      | Some d \<Rightarrow>
          if truthy_str pid \<and> truthy_str ptype then
            (case PeerInfo_new (the pid) (the ptype) of
               Inl e \<Rightarrow> Throw e st
             | Inr info \<Rightarrow>
                 Return () (st\<lparr>dials := AList.update ws (d\<lparr>serverPeerInfo := Some info\<rparr>) (dials st)\<rparr>))
          else Return () st)"

definition dial_open :: "nat \<Rightarrow> endpoint \<Rightarrow> unit js" where
  "dial_open ws st =
     (case map_of (dials st) ws of
        None \<Rightarrow> Return () st
      | Some d \<Rightarrow>
          (case serverPeerInfo d of
             None \<Rightarrow>
               Return ()
                 (settle (dial_promise d) (dial_address d)
                    (Rejected (Error
                       ''dropping outgoing connection because connection headers never received''))
                    (metrics_record ''open:headersNotReceived'' 1 (terminateWs ws st)))
           | Some info \<Rightarrow>
               (case WsEndpoint_onNewConnection ws (dial_address d) info True
                       (st\<lparr>dials := AList.update ws (d\<lparr>listening := True\<rparr>) (dials st)\<rparr>) of
                  (True, st1) \<Rightarrow>
                    (case PeerBook_getPeerId (peerBook st1) (dial_address d) of
                       Inl e \<Rightarrow> Throw e st1
                     | Inr pid \<Rightarrow>
                         Return () (settle (dial_promise d) (dial_address d) (Resolved pid) st1))
                | (False, st1) \<Rightarrow>
                    Return ()
                      (settle (dial_promise d) (dial_address d)
                         (Rejected (Error
                            (''duplicate connection to '' @ dial_address d @ '' is dropped'')))
                         st1))))"

definition dial_error :: "nat \<Rightarrow> error \<Rightarrow> endpoint \<Rightarrow> unit js" where
  "dial_error ws err st =
     (case map_of (dials st) ws of
        None \<Rightarrow> Return () st
      | Some d \<Rightarrow>
          Return ()
            (settle (dial_promise d) (dial_address d) (Rejected err)
               (terminateWs ws (metrics_record ''webSocketError'' 1 st))))"

text \<open>
  The \<open>open\<close> handler of the server: the library hands over a new socket object, which
  carries the address, peer id and peer type that the \<open>upgrade\<close> handler read from the
  request.
\<close>

definition server_open :: "websocket \<Rightarrow> endpoint \<Rightarrow> endpoint" where
  "server_open sock st =
     WsEndpoint_onIncomingConnection (nextSocket st)
       (st\<lparr>sockets := (sockets st)(nextSocket st := sock), nextSocket := Suc (nextSocket st)\<rparr>)"

section \<open>WebSocket endpoint: the events of the event loop\<close>

text \<open>
  What can happen to an endpoint, one callback at a time: a call of its interface, an event
  of a socket it dialled, an event of the server, the liveness timer, or a library that
  changes what it reports as \<open>readyState\<close> or as buffered amount. The listeners of
  \<open>_addListeners\<close> exist only on a dialled socket whose \<open>open\<close> handler has put them
  there. A callback that throws leaves the state as it was at the throw.
\<close>

datatype ep_event =
    EvConnect string "error + websocket"
  | EvSend string string
  | EvClose string string
  | EvDialUpgrade nat "string option" "string option"
  | EvDialOpen nat
  | EvDialError nat error
  | EvClientPong int nat
  | EvClientClose nat nat string
  | EvServerOpen websocket
  | EvServerPong int nat
  | EvServerDrain nat
  | EvServerClose nat nat string
  | EvPingTimer "string \<Rightarrow> int"
  | EvReadyState nat "nat option"
  | EvBufferedAmount nat nat

fun step :: "ep_event \<Rightarrow> endpoint \<Rightarrow> endpoint" where
  "step (EvConnect peerAddress ctor) st = state_of (WsEndpoint_connect peerAddress ctor st)"
| "step (EvSend recipientId message) st = state_of (WsEndpoint_send recipientId message st)"
| "step (EvClose recipientId reason) st = state_of (WsEndpoint_close recipientId reason st)"
| "step (EvDialUpgrade ws pid ptype) st = state_of (dial_upgrade ws pid ptype st)"
| "step (EvDialOpen ws) st = state_of (dial_open ws st)"
| "step (EvDialError ws err) st = state_of (dial_error ws err st)"
| "step (EvClientPong now ws) st =
     (case map_of (dials st) ws of
        None \<Rightarrow> st
      | Some d \<Rightarrow> if listening d then WsEndpoint_client_pong now ws st else st)"
| "step (EvClientClose ws code reason) st =
     (case map_of (dials st) ws of
        None \<Rightarrow> st
      | Some d \<Rightarrow>
          if listening d then state_of (WsEndpoint_client_close (dial_address d) code reason st)
          else st)"
| "step (EvServerOpen sock) st = server_open sock st"
| "step (EvServerPong now ws) st = WsEndpoint_server_pong now ws st"
| "step (EvServerDrain ws) st = WsEndpoint_drain ws st"
| "step (EvServerClose ws code reason) st = state_of (WsEndpoint_server_close ws code reason st)"
| "step (EvPingTimer now) st = state_of (WsEndpoint_pingConnections now st)"
| "step (EvReadyState ws rs) st = update_socket ws (\<lambda>s. s\<lparr>readyState := rs\<rparr>) st"
| "step (EvBufferedAmount ws n) st = update_socket ws (\<lambda>s. s\<lparr>bufferedAmount := n\<rparr>) st"

fun run :: "ep_event list \<Rightarrow> endpoint \<Rightarrow> endpoint" where
  "run [] st = st"
| "run (ev # evs) st = run evs (step ev st)"

text \<open>
  The dials in flight to an address: the sockets \<open>connect\<close> has created for it whose
  promise is not settled yet.
\<close>

definition inflight :: "endpoint \<Rightarrow> string \<Rightarrow> (nat \<times> dial) list" where
  "inflight st a =
     filter (\<lambda>wd. dial_address (snd wd) = a \<and> promises st (dial_promise (snd wd)) = Pending)
       (dials st)"

section \<open>Resend handler (src/resend/ResendHandler.js)\<close>

text \<open>Requests and messages are opaque to the handler.\<close>

type_synonym request = string
type_synonym message = string

text \<open>
  What happens to the response stream of a strategy while the handler reads it, one callback
  at a time: the events \<open>data\<close>, \<open>error\<close>, \<open>end\<close> and \<open>close\<close> of the stream, a
  firing of the interval timer that \<open>_readStreamUntilEndOrError\<close> sets, and a call of
  \<open>ctx.cancel()\<close> from outside.
\<close>

datatype stream_event = Data message | Err error | End | Close | Tick | Cancel

text \<open>A strategy: the stream that \<open>getResendResponseStream(request, source)\<close> returns.\<close>

type_synonym strategy = "request \<Rightarrow> string \<Rightarrow> stream_event list"

text \<open>
  The context object of one resend. Its closure \<open>cancel\<close> is \<open>ctx_cancel\<close> below;
  \<open>responseStream\<close> refers to the stream being read, \<open>None\<close> is \<open>null\<close>.
\<close>

record ctx =
  request :: request
  startTime :: int
  stop :: bool
  responseStream :: "nat option"


text \<open>
  The handler. \<open>resends\<close> is the object of the \<open>ResendBookkeeper\<close>, from node id to the Set
  of its contexts (in insertion order, without duplicates); the context objects live in the
  heap \<open>contexts\<close>. \<open>destroyed\<close> lists the response streams on which \<open>destroy()\<close> was
  called, \<open>notified\<close> the calls of \<open>notifyError({request, error})\<close>.
\<close>

record resend_handler =
  resendStrategies :: "strategy list"
  maxInactivityPeriodInMs :: nat
  resends :: "(string \<times> nat list) list"
  contexts :: "nat \<Rightarrow> ctx"
  nextContext :: nat
  nextStream :: nat
  destroyed :: "nat list"
  notified :: "(request \<times> error) list"


subsection \<open>ResendBookkeeper\<close>





definition ResendBookkeeper_size :: "resend_handler \<Rightarrow> nat" where
  "ResendBookkeeper_size h = sum_list (map (\<lambda>e. length (snd e)) (resends h))"

subsection \<open>Cancelling\<close>



subsection \<open>Reading one strategy, looping through the strategies\<close>











subsection \<open>The interval timer in milliseconds\<close>




section \<open>WebSocket endpoint: the bookkeeping of the dials\<close>

text \<open>
  The bookkeeping of the dials, as the invariant of \<open>connect\<close> sees it: the address and
  promise of every dial, the promises, the pending map and the next promise reference.
\<close>

definition dial_keys :: "endpoint \<Rightarrow> (string \<times> nat) list" where
  "dial_keys st = map (\<lambda>wd. (dial_address (snd wd), dial_promise (snd wd))) (dials st)"

definition dview ::
  "endpoint \<Rightarrow> (string \<times> nat) list \<times> (nat \<Rightarrow> promise_state) \<times> (string \<rightharpoonup> nat) \<times> nat" where
  "dview st = (dial_keys st, promises st, map_of (pendingConnections st), nextPromise st)"

text \<open>
  The invariant: the promise of each dial has been allocated, no two dials share a promise,
  and a dial whose promise is pending is the one the pending map holds for its address.
\<close>

definition dinv ::
  "(string \<times> nat) list \<times> (nat \<Rightarrow> promise_state) \<times> (string \<rightharpoonup> nat) \<times> nat \<Rightarrow> bool" where
  "dinv v =
     (case v of (keys, proms, pend, np) \<Rightarrow>
        (\<forall>k\<in>set keys. snd k < np) \<and> distinct (map snd keys)
        \<and> (\<forall>k\<in>set keys. proms (snd k) = Pending \<longrightarrow> pend (fst k) = Some (snd k)))"

section \<open>Two endpoints that dial each other at the same time\<close>


record race =
  atA :: endpoint
  atB :: endpoint

definition dialledSocket :: "(ws_call \<Rightarrow> error option) \<Rightarrow> websocket" where
  "dialledSocket raises = (WebSocket_new WsLib)\<lparr>throws := raises\<rparr>"

definition acceptedSocket :: "(ws_call \<Rightarrow> error option) \<Rightarrow> endpoint \<Rightarrow> websocket" where
  "acceptedSocket raises dialler =
     (WebSocket_new UWS)
       \<lparr>ws_address := Some (WsEndpoint_getAddress dialler),
        ws_peerId := Some (peerId (peerInfo dialler)),
        ws_peerType := Some (peerType (peerInfo dialler)),
        throws := raises\<rparr>"

definition race_start ::
  "endpoint \<Rightarrow> endpoint \<Rightarrow> (ws_call \<Rightarrow> error option) \<Rightarrow> (ws_call \<Rightarrow> error option) \<Rightarrow> race" where
  "race_start A B raisesA raisesB =
     \<lparr>atA = step (EvConnect (WsEndpoint_getAddress B) (Inr (dialledSocket raisesA))) A,
      atB = step (EvConnect (WsEndpoint_getAddress A) (Inr (dialledSocket raisesB))) B\<rparr>"





section \<open>Values for the examples\<close>

text \<open>
  A comparison for the examples, in the place of the collation of the runtime: the order
  of the character codes, with the results -1, 0 and 1.
\<close>

fun compareCodes :: "string \<Rightarrow> string \<Rightarrow> int" where
  "compareCodes [] [] = 0"
| "compareCodes [] (y # ys) = - 1"
| "compareCodes (x # xs) [] = 1"
| "compareCodes (x # xs) (y # ys) =
     (if (of_char x :: nat) < of_char y then - 1
      else if (of_char y :: nat) < of_char x then 1
      else compareCodes xs ys)"

definition smallerNode :: endpoint where
  "smallerNode = WsEndpoint_new ''127.0.0.1'' 30451 \<lparr>peerId = ''a'', peerType = ''node''\<rparr>
                   (Some ''ws://127.0.0.1:30451'') compareCodes"

definition greaterNode :: endpoint where
  "greaterNode = WsEndpoint_new ''127.0.0.1'' 30452 \<lparr>peerId = ''b'', peerType = ''node''\<rparr>
                   (Some ''ws://127.0.0.1:30452'') compareCodes"

definition noFault :: "ws_call \<Rightarrow> error option" where
  "noFault c = None"

fun returned :: "'a js \<Rightarrow> 'a option" where
  "returned (Return v st) = Some v"
| "returned (Throw e st) = None"

text \<open>
  The smaller node has dialled the greater one and the socket has opened; the socket is then
  closing (\<open>readyState\<close> 2) when the node calls \<open>connect\<close> again, which dials anew.
\<close>

definition closingAndPending :: endpoint where
  "closingAndPending =
     run [EvConnect ''ws://127.0.0.1:30452'' (Inr (dialledSocket noFault)),
          EvReadyState 0 (Some 1),
          EvDialUpgrade 0 (Some ''b'') (Some ''node''),
          EvDialOpen 0,
          EvReadyState 0 (Some 2),
          EvConnect ''ws://127.0.0.1:30452'' (Inr (dialledSocket noFault))]
       smallerNode"

text \<open>
  The smaller node has dialled the greater one, and before that socket opens its server
  accepts the socket the greater node has dialled.
\<close>

definition pendingAndAccepted :: endpoint where
  "pendingAndAccepted =
     run [EvConnect ''ws://127.0.0.1:30452'' (Inr (dialledSocket noFault)),
          EvServerOpen (acceptedSocket noFault greaterNode)]
       smallerNode"



text \<open>A library that raises on every \<open>send\<close>, and one that raises on every \<open>ping\<close>.\<close>

fun raiseOnSend :: "ws_call \<Rightarrow> error option" where
  "raiseOnSend (CallSend m) = Some (Error ''socket is not open'')"
| "raiseOnSend c = None"

fun raiseOnPing :: "ws_call \<Rightarrow> error option" where
  "raiseOnPing CallPing = Some (Error ''socket is not open'')"
| "raiseOnPing c = None"

text \<open>
  The greater node has accepted the socket of the smaller one; the same after that socket
  was closed by the peer with reason \<open>bye\<close>; and the same with a library that raises on
  \<open>send\<close>.
\<close>

definition accepted :: endpoint where
  "accepted = run [EvServerOpen (acceptedSocket noFault smallerNode)] greaterNode"

definition acceptedThenClosed :: endpoint where
  "acceptedThenClosed =
     run [EvServerOpen (acceptedSocket noFault smallerNode), EvServerClose 0 1000 ''bye'']
       greaterNode"

definition acceptedBroken :: endpoint where
  "acceptedBroken = run [EvServerOpen (acceptedSocket raiseOnSend smallerNode)] greaterNode"

text \<open>
  The smaller node has dialled the greater one with a socket whose send callback reports
  the error \<open>EPIPE\<close>, and the socket has opened.
\<close>

definition dialledFailing :: endpoint where
  "dialledFailing =
     run [EvConnect ''ws://127.0.0.1:30452''
            (Inr ((dialledSocket noFault)\<lparr>sendError := (\<lambda>m. Some (Error ''EPIPE''))\<rparr>)),
          EvReadyState 0 (Some 1),
          EvDialUpgrade 0 (Some ''b'') (Some ''node''),
          EvDialOpen 0]
       smallerNode"

text \<open>
  The greater node has dialled the smaller one and accepted a socket from a storage node.
  The first firing of the liveness timer, at time 1000, pings both; the accepted socket
  answers at time 1007, the dialled one does not.
\<close>

definition storageNode :: endpoint where
  "storageNode = WsEndpoint_new ''127.0.0.1'' 30453 \<lparr>peerId = ''s'', peerType = ''storage''\<rparr>
                   (Some ''ws://127.0.0.1:30453'') compareCodes"

definition twoConnections :: endpoint where
  "twoConnections =
     run [EvConnect ''ws://127.0.0.1:30451'' (Inr (dialledSocket noFault)),
          EvReadyState 0 (Some 1),
          EvDialUpgrade 0 (Some ''a'') (Some ''node''),
          EvDialOpen 0,
          EvServerOpen (acceptedSocket noFault storageNode)]
       greaterNode"

definition pingedOnce :: endpoint where
  "pingedOnce = run [EvPingTimer (\<lambda>a. 1000), EvServerPong 1007 1] twoConnections"













section \<open>Unfolding the endpoint on examples\<close>

lemmas ep_defs = race_start_def WsEndpoint_new_def WsEndpoint_connect_def connect_existing_def
  WsEndpoint_getAddress_def truthy_str_def Promise_new_def dialledSocket_def acceptedSocket_def
  WebSocket_new_def server_open_def WsEndpoint_onIncomingConnection_def Let_def
  WsEndpoint_isConnected_def WsEndpoint_onNewConnection_def PeerInfo_new_def
  dial_upgrade_def dial_open_def settle_def closeWs_def invoke_def update_socket_def
  metrics_record_def emit_def PeerBook_add_def PeerBook_getPeerId_def PeerBook_getPeerInfo_def
  PeerBook_new_def has_terminate_def dropIncoming_def
  update_conv' delete_conv' toHeaders_def

section \<open>Peer identity: the closed set of types\<close>

text \<open>
  C9. A \<open>PeerInfo\<close> is constructed exactly for the four types node, storage, tracker and
  unknown, and construction with any other type fails. On a constructed \<open>PeerInfo\<close>,
  \<open>isNode\<close> is true exactly for node and storage, \<open>isStorage\<close> exactly for storage and
  \<open>isTracker\<close> exactly for tracker.
\<close>

theorem PeerInfo_closed_type_set:
  "((\<exists>p. PeerInfo_new pid ty = Inr p) \<longleftrightarrow> ty \<in> {''node'', ''storage'', ''tracker'', ''unknown''})
   \<and> ((\<exists>e. PeerInfo_new pid ty = Inl e) \<longleftrightarrow> ty \<notin> {''node'', ''storage'', ''tracker'', ''unknown''})
   \<and> (\<forall>p. PeerInfo_new pid ty = Inr p \<longrightarrow>
         peerId p = pid \<and> peerType p = ty
         \<and> (isNode p \<longleftrightarrow> ty = ''node'' \<or> ty = ''storage'')
         \<and> (isStorage p \<longleftrightarrow> ty = ''storage'')
         \<and> (isTracker p \<longleftrightarrow> ty = ''tracker''))"
  by (auto simp: PeerInfo_new_def peerTypes_def isNode_def isStorage_def isTracker_def)

theorem PeerInfo_closed_type_set_witness:
  "PeerInfo_new ''storage'' ''storage'' = Inr \<lparr>peerId = ''storage'', peerType = ''storage''\<rparr>
   \<and> isNode \<lparr>peerId = ''storage'', peerType = ''storage''\<rparr>
   \<and> isStorage \<lparr>peerId = ''storage'', peerType = ''storage''\<rparr>
   \<and> \<not> isTracker \<lparr>peerId = ''storage'', peerType = ''storage''\<rparr>
   \<and> (\<exists>e. PeerInfo_new ''peerId'' ''invalidPeerType'' = Inl e)"
  using PeerInfo_closed_type_set [of "''storage''" "''storage''"]
    PeerInfo_closed_type_set [of "''peerId''" "''invalidPeerType''"]
  by (simp add: PeerInfo_new_def peerTypes_def)

section \<open>Server options\<close>

text \<open>
  C5. The options of the WebSocket server as the constructor writes them: the maximum payload
  is 1 MiB and the idle timeout is 0 (disabled), but the maximum buffered byte count is
  \<open>HIGH_BACK_PRESSURE + 1024\<close> = 2098176 bytes, one KiB above the high watermark, and not
  the 3 MiB (\<open>HIGH_BACK_PRESSURE\<close> plus 1 MiB) that the comment beside the constant
  ("add 1 MB safety margin") announces.
\<close>

theorem wss_ws_options_values:
  "maxPayloadLength wss_ws_options = 1048576
   \<and> idleTimeout wss_ws_options = 0
   \<and> maxBackpressure wss_ws_options = 2098176
   \<and> maxBackpressure wss_ws_options \<noteq> HIGH_BACK_PRESSURE + 1024 * 1024
   \<and> maxBackpressure wss_ws_options \<noteq> 3 * 1024 * 1024"
  by (simp add: wss_ws_options_def WS_BUFFER_SIZE_def HIGH_BACK_PRESSURE_def)

section \<open>Back pressure is sticky between the watermarks\<close>

text \<open>
  C2. One evaluation of the back pressure of a connection, as the drain event and a send that
  does not raise trigger it, with the watermarks at 2 MiB and 1 MiB. When the flag is not
  set and more than 2 MiB are buffered, the flag is set and exactly one HIGH_BACK_PRESSURE
  event carrying the peer info of the connection is emitted. When the flag is set and fewer
  than 1 MiB are buffered, the flag is cleared and exactly one LOW_BACK_PRESSURE event is
  emitted. In every other case nothing changes at all.
\<close>

theorem evaluateBackPressure_sticky:
  "HIGH_BACK_PRESSURE = 2 * 1048576 \<and> LOW_BACK_PRESSURE = 1048576
   \<and> WsEndpoint_drain ws st = WsEndpoint_evaluateBackPressure ws st
   \<and> (throws (sockets st ws) (CallSend m) = None \<longrightarrow>
        (\<exists>st1. snd (WsEndpoint_socketSend ws m rid ra st) = WsEndpoint_evaluateBackPressure ws st1
           \<and> highBackPressure (sockets st1 ws) = highBackPressure (sockets st ws)
           \<and> bufferedAmount (sockets st1 ws) = bufferedAmount (sockets st ws)
           \<and> emitted st1 = emitted st))
   \<and> (\<not> truthy (highBackPressure (sockets st ws)) \<and> bufferedAmount (sockets st ws) > 2 * 1048576 \<longrightarrow>
        WsEndpoint_evaluateBackPressure ws st =
          st\<lparr>emitted := emitted st @
                 [(''streamr:high-back-pressure'', [ArgPeer (ws_peerInfo (sockets st ws))])],
             sockets := (sockets st)(ws := (sockets st ws)\<lparr>highBackPressure := Some True\<rparr>)\<rparr>)
   \<and> (truthy (highBackPressure (sockets st ws)) \<and> bufferedAmount (sockets st ws) < 1048576 \<longrightarrow>
        WsEndpoint_evaluateBackPressure ws st =
          st\<lparr>emitted := emitted st @
                 [(''streamr:low-back-pressure'', [ArgPeer (ws_peerInfo (sockets st ws))])],
             sockets := (sockets st)(ws := (sockets st ws)\<lparr>highBackPressure := Some False\<rparr>)\<rparr>)
   \<and> (\<not> (\<not> truthy (highBackPressure (sockets st ws)) \<and> bufferedAmount (sockets st ws) > 2 * 1048576)
        \<and> \<not> (truthy (highBackPressure (sockets st ws)) \<and> bufferedAmount (sockets st ws) < 1048576) \<longrightarrow>
        WsEndpoint_evaluateBackPressure ws st = st)"
proof -
  have send: "throws (sockets st ws) (CallSend m) = None \<longrightarrow>
        (\<exists>st1. snd (WsEndpoint_socketSend ws m rid ra st) = WsEndpoint_evaluateBackPressure ws st1
           \<and> highBackPressure (sockets st1 ws) = highBackPressure (sockets st ws)
           \<and> bufferedAmount (sockets st1 ws) = bufferedAmount (sockets st ws)
           \<and> emitted st1 = emitted st)"
  proof
    assume t: "throws (sockets st ws) (CallSend m) = None"
    let ?st0 = "update_socket ws (\<lambda>s. s\<lparr>calls := calls s @ [CallSend m]\<rparr>) st"
    have "snd (WsEndpoint_socketSend ws m rid ra st) = WsEndpoint_evaluateBackPressure ws (onSuccess m ?st0)
        \<or> snd (WsEndpoint_socketSend ws m rid ra st)
             = WsEndpoint_evaluateBackPressure ws (metrics_record ''sendFailed'' 1 ?st0)"
      using t by (simp add: WsEndpoint_socketSend_def invoke_def split: option.splits)
    moreover have "highBackPressure (sockets (onSuccess m ?st0) ws) = highBackPressure (sockets st ws)
        \<and> bufferedAmount (sockets (onSuccess m ?st0) ws) = bufferedAmount (sockets st ws)
        \<and> emitted (onSuccess m ?st0) = emitted st"
      by (simp add: onSuccess_def metrics_record_def update_socket_def)
    moreover have "highBackPressure (sockets (metrics_record ''sendFailed'' 1 ?st0) ws)
          = highBackPressure (sockets st ws)
        \<and> bufferedAmount (sockets (metrics_record ''sendFailed'' 1 ?st0) ws)
          = bufferedAmount (sockets st ws)
        \<and> emitted (metrics_record ''sendFailed'' 1 ?st0) = emitted st"
      by (simp add: metrics_record_def update_socket_def)
    ultimately show "\<exists>st1. snd (WsEndpoint_socketSend ws m rid ra st)
           = WsEndpoint_evaluateBackPressure ws st1
         \<and> highBackPressure (sockets st1 ws) = highBackPressure (sockets st ws)
         \<and> bufferedAmount (sockets st1 ws) = bufferedAmount (sockets st ws)
         \<and> emitted st1 = emitted st"
      by blast
  qed
  have rest: "HIGH_BACK_PRESSURE = 2 * 1048576" "LOW_BACK_PRESSURE = 1048576"
    "WsEndpoint_drain ws st = WsEndpoint_evaluateBackPressure ws st"
    "\<not> truthy (highBackPressure (sockets st ws)) \<and> bufferedAmount (sockets st ws) > 2 * 1048576 \<longrightarrow>
        WsEndpoint_evaluateBackPressure ws st =
          st\<lparr>emitted := emitted st @
                 [(''streamr:high-back-pressure'', [ArgPeer (ws_peerInfo (sockets st ws))])],
             sockets := (sockets st)(ws := (sockets st ws)\<lparr>highBackPressure := Some True\<rparr>)\<rparr>"
    "truthy (highBackPressure (sockets st ws)) \<and> bufferedAmount (sockets st ws) < 1048576 \<longrightarrow>
        WsEndpoint_evaluateBackPressure ws st =
          st\<lparr>emitted := emitted st @
                 [(''streamr:low-back-pressure'', [ArgPeer (ws_peerInfo (sockets st ws))])],
             sockets := (sockets st)(ws := (sockets st ws)\<lparr>highBackPressure := Some False\<rparr>)\<rparr>"
    "\<not> (\<not> truthy (highBackPressure (sockets st ws)) \<and> bufferedAmount (sockets st ws) > 2 * 1048576)
        \<and> \<not> (truthy (highBackPressure (sockets st ws)) \<and> bufferedAmount (sockets st ws) < 1048576) \<longrightarrow>
        WsEndpoint_evaluateBackPressure ws st = st"
    by (simp_all add: WsEndpoint_evaluateBackPressure_def WsEndpoint_drain_def Let_def
        getBufferedAmount_def HIGH_BACK_PRESSURE_def LOW_BACK_PRESSURE_def update_socket_def
        emit_def events_HIGH_BACK_PRESSURE_def events_LOW_BACK_PRESSURE_def)
  show ?thesis
    by (rule conjI [OF rest(1) conjI [OF rest(2) conjI [OF rest(3) conjI [OF send
          conjI [OF rest(4) conjI [OF rest(5) rest(6)]]]]]])
qed

text \<open>
  The run of the example: the greater node accepts a socket, 3000000 bytes are buffered on
  it when it drains, then 1500000, then 1000.
\<close>

theorem evaluateBackPressure_sticky_witness:
  "emitted (run [EvServerOpen (acceptedSocket noFault smallerNode), EvBufferedAmount 0 3000000,
                 EvServerDrain 0] greaterNode)
     = emitted (run [EvServerOpen (acceptedSocket noFault smallerNode), EvBufferedAmount 0 3000000]
                  greaterNode)
       @ [(''streamr:high-back-pressure'', [ArgPeer (Some \<lparr>peerId = ''a'', peerType = ''node''\<rparr>)])]
   \<and> highBackPressure (sockets (run [EvServerOpen (acceptedSocket noFault smallerNode),
        EvBufferedAmount 0 3000000, EvServerDrain 0] greaterNode) 0) = Some True
   \<and> run [EvServerOpen (acceptedSocket noFault smallerNode), EvBufferedAmount 0 3000000,
           EvServerDrain 0, EvBufferedAmount 0 1500000, EvServerDrain 0] greaterNode
     = run [EvServerOpen (acceptedSocket noFault smallerNode), EvBufferedAmount 0 3000000,
            EvServerDrain 0, EvBufferedAmount 0 1500000] greaterNode
   \<and> highBackPressure (sockets (run [EvServerOpen (acceptedSocket noFault smallerNode),
        EvBufferedAmount 0 3000000, EvServerDrain 0, EvBufferedAmount 0 1000, EvServerDrain 0]
        greaterNode) 0) = Some False"
proof -
  let ?s1 = "run [EvServerOpen (acceptedSocket noFault smallerNode), EvBufferedAmount 0 3000000]
               greaterNode"
  let ?s2 = "run [EvServerOpen (acceptedSocket noFault smallerNode), EvBufferedAmount 0 3000000,
                  EvServerDrain 0, EvBufferedAmount 0 1500000] greaterNode"
  let ?s3 = "run [EvServerOpen (acceptedSocket noFault smallerNode), EvBufferedAmount 0 3000000,
                  EvServerDrain 0, EvBufferedAmount 0 1000] greaterNode"
  note defs = smallerNode_def greaterNode_def noFault_def ep_defs peerTypes_def truthy_def
    WsEndpoint_drain_def WsEndpoint_evaluateBackPressure_def getBufferedAmount_def
    HIGH_BACK_PRESSURE_def LOW_BACK_PRESSURE_def
  have h1: "\<not> truthy (highBackPressure (sockets ?s1 0)) \<and> bufferedAmount (sockets ?s1 0) > 2 * 1048576
      \<and> ws_peerInfo (sockets ?s1 0) = Some \<lparr>peerId = ''a'', peerType = ''node''\<rparr>"
    by (simp add: defs split del: if_split)
  have h2: "\<not> (\<not> truthy (highBackPressure (sockets ?s2 0)) \<and> bufferedAmount (sockets ?s2 0) > 2 * 1048576)
      \<and> \<not> (truthy (highBackPressure (sockets ?s2 0)) \<and> bufferedAmount (sockets ?s2 0) < 1048576)"
    by (simp add: defs split del: if_split)
  have h3: "truthy (highBackPressure (sockets ?s3 0)) \<and> bufferedAmount (sockets ?s3 0) < 1048576"
    by (simp add: defs split del: if_split)
  note t1 = evaluateBackPressure_sticky [where ws = 0 and st = ?s1 and m = "[]" and rid = "[]" and ra = "[]"]
  note t2 = evaluateBackPressure_sticky [where ws = 0 and st = ?s2 and m = "[]" and rid = "[]" and ra = "[]"]
  note t3 = evaluateBackPressure_sticky [where ws = 0 and st = ?s3 and m = "[]" and rid = "[]" and ra = "[]"]
  have e1: "WsEndpoint_evaluateBackPressure 0 ?s1 =
      ?s1\<lparr>emitted := emitted ?s1 @
             [(''streamr:high-back-pressure'', [ArgPeer (ws_peerInfo (sockets ?s1 0))])],
          sockets := (sockets ?s1)(0 := (sockets ?s1 0)\<lparr>highBackPressure := Some True\<rparr>)\<rparr>"
    using t1 h1 by blast
  have e2: "WsEndpoint_evaluateBackPressure 0 ?s2 = ?s2"
    using t2 h2 by blast
  have e3: "WsEndpoint_evaluateBackPressure 0 ?s3 =
      ?s3\<lparr>emitted := emitted ?s3 @
             [(''streamr:low-back-pressure'', [ArgPeer (ws_peerInfo (sockets ?s3 0))])],
          sockets := (sockets ?s3)(0 := (sockets ?s3 0)\<lparr>highBackPressure := Some False\<rparr>)\<rparr>"
    using t3 h3 by blast
  have r1: "run [EvServerOpen (acceptedSocket noFault smallerNode), EvBufferedAmount 0 3000000,
                 EvServerDrain 0] greaterNode = WsEndpoint_evaluateBackPressure 0 ?s1"
    by (simp add: WsEndpoint_drain_def)
  have r2: "run [EvServerOpen (acceptedSocket noFault smallerNode), EvBufferedAmount 0 3000000,
           EvServerDrain 0, EvBufferedAmount 0 1500000, EvServerDrain 0] greaterNode
        = WsEndpoint_evaluateBackPressure 0 ?s2"
    by (simp add: WsEndpoint_drain_def)
  have r3: "run [EvServerOpen (acceptedSocket noFault smallerNode), EvBufferedAmount 0 3000000,
        EvServerDrain 0, EvBufferedAmount 0 1000, EvServerDrain 0] greaterNode
        = WsEndpoint_evaluateBackPressure 0 ?s3"
    by (simp add: WsEndpoint_drain_def)
  have c1: "emitted (WsEndpoint_evaluateBackPressure 0 ?s1) = emitted ?s1
       @ [(''streamr:high-back-pressure'', [ArgPeer (Some \<lparr>peerId = ''a'', peerType = ''node''\<rparr>)])]"
    by (subst e1) (simp add: h1 del: run.simps step.simps)
  have c2: "highBackPressure (sockets (WsEndpoint_evaluateBackPressure 0 ?s1) 0) = Some True"
    by (subst e1) (simp del: run.simps step.simps)
  have c3: "highBackPressure (sockets (WsEndpoint_evaluateBackPressure 0 ?s3) 0) = Some False"
    by (subst e3) (simp del: run.simps step.simps)
  show ?thesis
    unfolding r1 r2 r3 using c1 c2 e2 c3 by blast
qed

section \<open>send\<close>

lemma evaluateBackPressure_keeps:
  "calls (sockets (WsEndpoint_evaluateBackPressure ws st) w) = calls (sockets st w)"
  "metrics (WsEndpoint_evaluateBackPressure ws st) = metrics st"
  "connections (WsEndpoint_evaluateBackPressure ws st) = connections st"
  by (simp_all add: WsEndpoint_evaluateBackPressure_def Let_def update_socket_def emit_def)

lemma socketSend_raises:
  assumes "throws (sockets st ws) (CallSend m) = Some e"
  shows "WsEndpoint_socketSend ws m rid ra st =
           (Pending, terminateWs ws (metrics_record ''sendFailed'' 1
              (update_socket ws (\<lambda>s. s\<lparr>calls := calls s @ [CallSend m]\<rparr>) st)))"
  using assms by (simp add: WsEndpoint_socketSend_def invoke_def)

lemma socketSend_sent:
  assumes "throws (sockets st ws) (CallSend m) = None"
    and "impl (sockets st ws) = UWS \<or> sendError (sockets st ws) m = None"
  shows "WsEndpoint_socketSend ws m rid ra st =
           (Resolved rid, WsEndpoint_evaluateBackPressure ws (onSuccess m
              (update_socket ws (\<lambda>s. s\<lparr>calls := calls s @ [CallSend m]\<rparr>) st)))"
  using assms
  by (auto simp: WsEndpoint_socketSend_def invoke_def constructor_name_def update_socket_def
      split: option.splits ws_impl.splits)

lemma socketSend_failed:
  assumes "throws (sockets st ws) (CallSend m) = None"
    and "impl (sockets st ws) = WsLib" and "sendError (sockets st ws) m = Some err"
  shows "WsEndpoint_socketSend ws m rid ra st =
           (Rejected err, WsEndpoint_evaluateBackPressure ws (metrics_record ''sendFailed'' 1
              (update_socket ws (\<lambda>s. s\<lparr>calls := calls s @ [CallSend m]\<rparr>) st)))"
  using assms
  by (simp add: WsEndpoint_socketSend_def invoke_def constructor_name_def update_socket_def)

text \<open>
  C4. \<open>send(recipientId, message)\<close> takes the address of the recipient from the peer book
  (and throws what the lookup throws). With no connection registered for that address the
  promise is rejected with "cannot send to ... because not connected". With a connection,
  the message is handed to the socket: when the transmission succeeds the promise is resolved
  with the recipient id; when the send callback of the socket reports an error the promise
  is rejected with that error and the metric \<open>sendFailed\<close> is recorded; when the send
  raises, the socket is terminated (and \<open>sendFailed\<close> recorded; neither callback of the
  promise is called).
\<close>

theorem send_outcomes:
  "WsEndpoint_resolveAddress rid st = PeerBook_getAddress (peerBook st) rid
   \<and> (PeerBook_getAddress (peerBook st) rid = Inl e \<longrightarrow> WsEndpoint_send rid m st = Throw e st)
   \<and> (PeerBook_getAddress (peerBook st) rid = Inr addr \<and> \<not> WsEndpoint_isConnected addr st \<longrightarrow>
        WsEndpoint_send rid m st =
          Return (Rejected (Error (''cannot send to '' @ addr @ '' because not connected'')))
            (st\<lparr>metrics := metrics st @ [(''sendFailed'', 1)]\<rparr>))
   \<and> (PeerBook_getAddress (peerBook st) rid = Inr addr \<and> map_of (connections st) addr = Some ws
        \<and> throws (sockets st ws) (CallSend m) = None
        \<and> (impl (sockets st ws) = UWS \<or> sendError (sockets st ws) m = None) \<longrightarrow>
        returned (WsEndpoint_send rid m st) = Some (Resolved rid)
        \<and> calls (sockets (state_of (WsEndpoint_send rid m st)) ws)
            = calls (sockets st ws) @ [CallSend m])
   \<and> (PeerBook_getAddress (peerBook st) rid = Inr addr \<and> map_of (connections st) addr = Some ws
        \<and> throws (sockets st ws) (CallSend m) = None
        \<and> impl (sockets st ws) = WsLib \<and> sendError (sockets st ws) m = Some err \<longrightarrow>
        returned (WsEndpoint_send rid m st) = Some (Rejected err)
        \<and> metrics (state_of (WsEndpoint_send rid m st)) = metrics st @ [(''sendFailed'', 1)]
        \<and> calls (sockets (state_of (WsEndpoint_send rid m st)) ws)
            = calls (sockets st ws) @ [CallSend m])
   \<and> (PeerBook_getAddress (peerBook st) rid = Inr addr \<and> map_of (connections st) addr = Some ws
        \<and> throws (sockets st ws) (CallSend m) = Some e \<longrightarrow>
        returned (WsEndpoint_send rid m st) = Some Pending
        \<and> metrics (state_of (WsEndpoint_send rid m st)) = metrics st @ [(''sendFailed'', 1)]
        \<and> calls (sockets (state_of (WsEndpoint_send rid m st)) ws)
            = calls (sockets st ws) @
                [CallSend m, if impl (sockets st ws) = WsLib then CallTerminate else CallClose0])"
proof -
  have p1: "WsEndpoint_resolveAddress rid st = PeerBook_getAddress (peerBook st) rid"
    by (simp add: WsEndpoint_resolveAddress_def)
  have p2: "PeerBook_getAddress (peerBook st) rid = Inl e \<longrightarrow> WsEndpoint_send rid m st = Throw e st"
    by (simp add: WsEndpoint_send_def WsEndpoint_resolveAddress_def)
  have p3: "PeerBook_getAddress (peerBook st) rid = Inr addr \<and> \<not> WsEndpoint_isConnected addr st \<longrightarrow>
        WsEndpoint_send rid m st =
          Return (Rejected (Error (''cannot send to '' @ addr @ '' because not connected'')))
            (st\<lparr>metrics := metrics st @ [(''sendFailed'', 1)]\<rparr>)"
    by (simp add: WsEndpoint_send_def WsEndpoint_resolveAddress_def WsEndpoint_isConnected_def
        metrics_record_def)
  have p4: "PeerBook_getAddress (peerBook st) rid = Inr addr \<and> map_of (connections st) addr = Some ws
        \<and> throws (sockets st ws) (CallSend m) = None
        \<and> (impl (sockets st ws) = UWS \<or> sendError (sockets st ws) m = None) \<longrightarrow>
        returned (WsEndpoint_send rid m st) = Some (Resolved rid)
        \<and> calls (sockets (state_of (WsEndpoint_send rid m st)) ws)
            = calls (sockets st ws) @ [CallSend m]"
  proof
    assume h: "PeerBook_getAddress (peerBook st) rid = Inr addr \<and> map_of (connections st) addr = Some ws
        \<and> throws (sockets st ws) (CallSend m) = None
        \<and> (impl (sockets st ws) = UWS \<or> sendError (sockets st ws) m = None)"
    then have "WsEndpoint_socketSend ws m rid addr st =
           (Resolved rid, WsEndpoint_evaluateBackPressure ws (onSuccess m
              (update_socket ws (\<lambda>s. s\<lparr>calls := calls s @ [CallSend m]\<rparr>) st)))"
      using socketSend_sent [of st ws m rid addr] by blast
    with h show "returned (WsEndpoint_send rid m st) = Some (Resolved rid)
        \<and> calls (sockets (state_of (WsEndpoint_send rid m st)) ws)
            = calls (sockets st ws) @ [CallSend m]"
      by (simp add: WsEndpoint_send_def WsEndpoint_resolveAddress_def evaluateBackPressure_keeps
          onSuccess_def metrics_record_def update_socket_def)
  qed
  have p5: "PeerBook_getAddress (peerBook st) rid = Inr addr \<and> map_of (connections st) addr = Some ws
        \<and> throws (sockets st ws) (CallSend m) = None
        \<and> impl (sockets st ws) = WsLib \<and> sendError (sockets st ws) m = Some err \<longrightarrow>
        returned (WsEndpoint_send rid m st) = Some (Rejected err)
        \<and> metrics (state_of (WsEndpoint_send rid m st)) = metrics st @ [(''sendFailed'', 1)]
        \<and> calls (sockets (state_of (WsEndpoint_send rid m st)) ws)
            = calls (sockets st ws) @ [CallSend m]"
  proof
    assume h: "PeerBook_getAddress (peerBook st) rid = Inr addr \<and> map_of (connections st) addr = Some ws
        \<and> throws (sockets st ws) (CallSend m) = None
        \<and> impl (sockets st ws) = WsLib \<and> sendError (sockets st ws) m = Some err"
    then have "WsEndpoint_socketSend ws m rid addr st =
           (Rejected err, WsEndpoint_evaluateBackPressure ws (metrics_record ''sendFailed'' 1
              (update_socket ws (\<lambda>s. s\<lparr>calls := calls s @ [CallSend m]\<rparr>) st)))"
      using socketSend_failed [of st ws m err rid addr] by blast
    with h show "returned (WsEndpoint_send rid m st) = Some (Rejected err)
        \<and> metrics (state_of (WsEndpoint_send rid m st)) = metrics st @ [(''sendFailed'', 1)]
        \<and> calls (sockets (state_of (WsEndpoint_send rid m st)) ws)
            = calls (sockets st ws) @ [CallSend m]"
      by (simp add: WsEndpoint_send_def WsEndpoint_resolveAddress_def evaluateBackPressure_keeps
          metrics_record_def update_socket_def)
  qed
  have p6: "PeerBook_getAddress (peerBook st) rid = Inr addr \<and> map_of (connections st) addr = Some ws
        \<and> throws (sockets st ws) (CallSend m) = Some e \<longrightarrow>
        returned (WsEndpoint_send rid m st) = Some Pending
        \<and> metrics (state_of (WsEndpoint_send rid m st)) = metrics st @ [(''sendFailed'', 1)]
        \<and> calls (sockets (state_of (WsEndpoint_send rid m st)) ws)
            = calls (sockets st ws) @
                [CallSend m, if impl (sockets st ws) = WsLib then CallTerminate else CallClose0]"
  proof
    assume h: "PeerBook_getAddress (peerBook st) rid = Inr addr \<and> map_of (connections st) addr = Some ws
        \<and> throws (sockets st ws) (CallSend m) = Some e"
    then have "WsEndpoint_socketSend ws m rid addr st =
           (Pending, terminateWs ws (metrics_record ''sendFailed'' 1
              (update_socket ws (\<lambda>s. s\<lparr>calls := calls s @ [CallSend m]\<rparr>) st)))"
      using socketSend_raises [of st ws m e rid addr] by blast
    with h show "returned (WsEndpoint_send rid m st) = Some Pending
        \<and> metrics (state_of (WsEndpoint_send rid m st)) = metrics st @ [(''sendFailed'', 1)]
        \<and> calls (sockets (state_of (WsEndpoint_send rid m st)) ws)
            = calls (sockets st ws) @
                [CallSend m, if impl (sockets st ws) = WsLib then CallTerminate else CallClose0]"
      by (simp add: WsEndpoint_send_def WsEndpoint_resolveAddress_def terminateWs_def invoke_def
          metrics_record_def update_socket_def has_terminate_def)
  qed
  show ?thesis
    by (rule conjI [OF p1 conjI [OF p2 conjI [OF p3 conjI [OF p4 conjI [OF p5 p6]]]]])
qed

lemma send_examples:
  "PeerBook_getAddress (peerBook accepted) ''a'' = Inr ''ws://127.0.0.1:30451''
   \<and> map_of (connections accepted) ''ws://127.0.0.1:30451'' = Some 0
   \<and> throws (sockets accepted 0) (CallSend ''hello'') = None
   \<and> impl (sockets accepted 0) = UWS \<and> calls (sockets accepted 0) = []"
  "PeerBook_getAddress (peerBook acceptedThenClosed) ''a'' = Inr ''ws://127.0.0.1:30451''
   \<and> \<not> WsEndpoint_isConnected ''ws://127.0.0.1:30451'' acceptedThenClosed"
  "PeerBook_getAddress (peerBook acceptedBroken) ''a'' = Inr ''ws://127.0.0.1:30451''
   \<and> map_of (connections acceptedBroken) ''ws://127.0.0.1:30451'' = Some 0
   \<and> throws (sockets acceptedBroken 0) (CallSend ''hello'') = Some (Error ''socket is not open'')
   \<and> impl (sockets acceptedBroken 0) = UWS \<and> calls (sockets acceptedBroken 0) = []"
  "PeerBook_getAddress (peerBook dialledFailing) ''b'' = Inr ''ws://127.0.0.1:30452''
   \<and> map_of (connections dialledFailing) ''ws://127.0.0.1:30452'' = Some 0
   \<and> throws (sockets dialledFailing 0) (CallSend ''hello'') = None
   \<and> impl (sockets dialledFailing 0) = WsLib
   \<and> sendError (sockets dialledFailing 0) ''hello'' = Some (Error ''EPIPE'')"
  "PeerBook_getAddress (peerBook accepted) ''nobody'' = Inl (Error ''Id nobody not found in peer book'')"
  by (simp_all add: accepted_def acceptedThenClosed_def acceptedBroken_def dialledFailing_def
      smallerNode_def greaterNode_def noFault_def ep_defs peerTypes_def PeerBook_getAddress_def
      WsEndpoint_server_close_def WsEndpoint_onClose_def disconnectionReasons_DUPLICATE_SOCKET_def
      split del: if_split)

theorem send_outcomes_witness:
  "returned (WsEndpoint_send ''a'' ''hello'' accepted) = Some (Resolved ''a'')
   \<and> calls (sockets (state_of (WsEndpoint_send ''a'' ''hello'' accepted)) 0) = [CallSend ''hello'']
   \<and> WsEndpoint_send ''a'' ''hello'' acceptedThenClosed
       = Return (Rejected (Error ''cannot send to ws://127.0.0.1:30451 because not connected''))
           (acceptedThenClosed\<lparr>metrics := metrics acceptedThenClosed @ [(''sendFailed'', 1)]\<rparr>)
   \<and> returned (WsEndpoint_send ''b'' ''hello'' dialledFailing) = Some (Rejected (Error ''EPIPE''))
   \<and> returned (WsEndpoint_send ''a'' ''hello'' acceptedBroken) = Some Pending
   \<and> calls (sockets (state_of (WsEndpoint_send ''a'' ''hello'' acceptedBroken)) 0)
       = [CallSend ''hello'', CallClose0]
   \<and> WsEndpoint_send ''nobody'' ''hello'' accepted
       = Throw (Error ''Id nobody not found in peer book'') accepted"
proof -
  note ok = send_outcomes [where rid = "''a''" and st = accepted and m = "''hello''"
      and addr = "''ws://127.0.0.1:30451''" and ws = 0, THEN conjunct2, THEN conjunct2,
      THEN conjunct2, THEN conjunct1]
  note nc = send_outcomes [where rid = "''a''" and st = acceptedThenClosed and m = "''hello''"
      and addr = "''ws://127.0.0.1:30451''", THEN conjunct2, THEN conjunct2, THEN conjunct1]
  note fl = send_outcomes [where rid = "''b''" and st = dialledFailing and m = "''hello''"
      and addr = "''ws://127.0.0.1:30452''" and ws = 0 and err = "Error ''EPIPE''",
      THEN conjunct2, THEN conjunct2, THEN conjunct2, THEN conjunct2, THEN conjunct1]
  note rs = send_outcomes [where rid = "''a''" and st = acceptedBroken and m = "''hello''"
      and addr = "''ws://127.0.0.1:30451''" and ws = 0 and e = "Error ''socket is not open''",
      THEN conjunct2, THEN conjunct2, THEN conjunct2, THEN conjunct2, THEN conjunct2]
  note th = send_outcomes [where rid = "''nobody''" and st = accepted and m = "''hello''"
      and e = "Error ''Id nobody not found in peer book''", THEN conjunct2, THEN conjunct1]
  have c1: "returned (WsEndpoint_send ''a'' ''hello'' accepted) = Some (Resolved ''a'')
     \<and> calls (sockets (state_of (WsEndpoint_send ''a'' ''hello'' accepted)) 0) = [CallSend ''hello'']"
    using ok send_examples(1) by simp
  have c2: "WsEndpoint_send ''a'' ''hello'' acceptedThenClosed
       = Return (Rejected (Error ''cannot send to ws://127.0.0.1:30451 because not connected''))
           (acceptedThenClosed\<lparr>metrics := metrics acceptedThenClosed @ [(''sendFailed'', 1)]\<rparr>)"
    using nc send_examples(2) by simp
  have c3: "returned (WsEndpoint_send ''b'' ''hello'' dialledFailing) = Some (Rejected (Error ''EPIPE''))"
    using fl send_examples(4) by simp
  have c4: "returned (WsEndpoint_send ''a'' ''hello'' acceptedBroken) = Some Pending
     \<and> calls (sockets (state_of (WsEndpoint_send ''a'' ''hello'' acceptedBroken)) 0)
         = [CallSend ''hello'', CallClose0]"
    using rs send_examples(3) by simp
  have c5: "WsEndpoint_send ''nobody'' ''hello'' accepted
       = Throw (Error ''Id nobody not found in peer book'') accepted"
    using th send_examples(5) by simp
  from c1 c2 c3 c4 c5 show ?thesis by blast
qed

section \<open>Liveness: the ping timer and the pong handlers\<close>

lemma not_answered_iff:
  "(respondedPong s \<noteq> None \<and> \<not> truthy (respondedPong s)) \<longleftrightarrow> respondedPong s = Some False"
  by (cases "respondedPong s") (auto simp: truthy_def)

lemma pingFailed_known:
  assumes "addressToInfo (peerBook st) a = Some info"
  shows "pingFailed (Some ws) a st =
           Return ()
             ((terminateWs ws st)
                \<lparr>metrics := metrics st @ [(''close'', 1)],
                 connections := AList.delete a (connections st),
                 emitted := emitted st @
                   [(events_PEER_DISCONNECTED,
                     [ArgPeer (Some info), ArgStr disconnectionReasons_DEAD_CONNECTION])]\<rparr>)"
  using assms
  by (simp add: pingFailed_def Let_def PeerBook_getPeerInfo_def PeerBook_getPeerId_def
      WsEndpoint_onClose_def terminateWs_def invoke_def update_socket_def metrics_record_def
      emit_def disconnectionReasons_DEAD_CONNECTION_def disconnectionReasons_DUPLICATE_SOCKET_def)

lemma pingConnection_dead:
  assumes "map_of (connections st) a = Some ws" and "respondedPong (sockets st ws) = Some False"
  shows "pingConnection t a st = pingFailed (Some ws) a st"
  using assms unfolding pingConnection_def not_answered_iff by simp

lemma pingConnection_alive:
  assumes "map_of (connections st) a = Some ws" and "respondedPong (sockets st ws) \<noteq> Some False"
  shows "pingConnection t a st =
           (case invoke ws CallPing
                   (update_socket ws (\<lambda>s. s\<lparr>respondedPong := Some False, rttStart := Some t\<rparr>) st) of
              (Some e, st') \<Rightarrow> pingFailed (Some ws) a st'
            | (None, st') \<Rightarrow> Return () st')"
  using assms unfolding pingConnection_def not_answered_iff by simp

lemma pingConnection_effect:
  assumes c: "map_of (connections st) a = Some ws"
    and b: "addressToInfo (peerBook st) a = Some info"
  shows "\<exists>st1. pingConnection (now a) a st = Return () st1
           \<and> peerBook st1 = peerBook st
           \<and> (\<forall>w. w \<noteq> ws \<longrightarrow> sockets st1 w = sockets st w)
           \<and> (\<forall>a'. a' \<noteq> a \<longrightarrow> map_of (connections st1) a' = map_of (connections st) a')
           \<and> (\<exists>later. emitted st1 = emitted st @ later)
           \<and> pinged now st st1 a ws"
proof (cases "respondedPong (sockets st ws) = Some False")
  case True
  let ?st1 = "(terminateWs ws st)
                \<lparr>metrics := metrics st @ [(''close'', 1)],
                 connections := AList.delete a (connections st),
                 emitted := emitted st @
                   [(events_PEER_DISCONNECTED,
                     [ArgPeer (Some info), ArgStr disconnectionReasons_DEAD_CONNECTION])]\<rparr>"
  have "pingConnection (now a) a st = Return () ?st1"
    using pingConnection_dead [OF c True] pingFailed_known [OF b] by simp
  moreover have "peerBook ?st1 = peerBook st" "\<forall>w. w \<noteq> ws \<longrightarrow> sockets ?st1 w = sockets st w"
    "\<forall>a'. a' \<noteq> a \<longrightarrow> map_of (connections ?st1) a' = map_of (connections st) a'"
    "\<exists>later. emitted ?st1 = emitted st @ later"
    by (simp_all add: terminateWs_def invoke_def update_socket_def delete_conv')
  moreover have "pinged now st ?st1 a ws"
    using True b
    by (simp add: pinged_def Let_def terminateWs_def invoke_def update_socket_def delete_conv'
        has_terminate_def)
  ultimately show ?thesis by blast
next
  case False
  let ?st0 = "update_socket ws (\<lambda>s. s\<lparr>calls := calls s @ [CallPing]\<rparr>)
               (update_socket ws (\<lambda>s. s\<lparr>respondedPong := Some False, rttStart := Some (now a)\<rparr>) st)"
  note alive = pingConnection_alive [OF c False, of "now a"]
  show ?thesis
  proof (cases "throws (sockets st ws) CallPing")
    case None
    have "pingConnection (now a) a st = Return () ?st0"
      using alive None by (simp add: invoke_def update_socket_def)
    moreover have "peerBook ?st0 = peerBook st" "\<forall>w. w \<noteq> ws \<longrightarrow> sockets ?st0 w = sockets st w"
      "\<forall>a'. a' \<noteq> a \<longrightarrow> map_of (connections ?st0) a' = map_of (connections st) a'"
      "\<exists>later. emitted ?st0 = emitted st @ later"
      by (simp_all add: update_socket_def)
    moreover have "pinged now st ?st0 a ws"
      using False None c by (simp add: pinged_def Let_def update_socket_def)
    ultimately show ?thesis by blast
  next
    case (Some e)
    let ?st1 = "(terminateWs ws ?st0)
                \<lparr>metrics := metrics ?st0 @ [(''close'', 1)],
                 connections := AList.delete a (connections ?st0),
                 emitted := emitted ?st0 @
                   [(events_PEER_DISCONNECTED,
                     [ArgPeer (Some info), ArgStr disconnectionReasons_DEAD_CONNECTION])]\<rparr>"
    have b0: "addressToInfo (peerBook ?st0) a = Some info"
      using b by (simp add: update_socket_def)
    have "pingConnection (now a) a st = Return () ?st1"
      using alive Some pingFailed_known [OF b0, of ws]
      by (simp add: invoke_def update_socket_def)
    moreover have "peerBook ?st1 = peerBook st" "\<forall>w. w \<noteq> ws \<longrightarrow> sockets ?st1 w = sockets st w"
      "\<forall>a'. a' \<noteq> a \<longrightarrow> map_of (connections ?st1) a' = map_of (connections st) a'"
      "\<exists>later. emitted ?st1 = emitted st @ later"
      by (simp_all add: terminateWs_def invoke_def update_socket_def delete_conv')
    moreover have "pinged now st ?st1 a ws"
      using False Some b
      by (simp add: pinged_def Let_def terminateWs_def invoke_def update_socket_def delete_conv'
          has_terminate_def)
    ultimately show ?thesis by blast
  qed
qed

lemma pinged_stable:
  assumes "pinged now st st1 a ws" and "sockets st' ws = sockets st1 ws"
    and "map_of (connections st') a = map_of (connections st1) a"
    and "emitted st' = emitted st1 @ later"
  shows "pinged now st st' a ws"
  using assms by (auto simp: pinged_def Let_def split: if_splits)

lemma pinged_from:
  assumes "pinged now st1 st' a ws" and "sockets st1 ws = sockets st ws"
    and "peerBook st1 = peerBook st"
  shows "pinged now st st' a ws"
  using assms by (simp add: pinged_def)

lemma pingEach_effect:
  assumes "distinct as"
    and "\<forall>a\<in>set as. map_of (connections st) a \<noteq> None"
    and "inj_on (map_of (connections st)) (set as)"
    and "\<forall>a\<in>set as. addressToInfo (peerBook st) a \<noteq> None"
  shows "\<exists>st'. pingEach now as st = Return () st'
           \<and> peerBook st' = peerBook st
           \<and> (\<forall>w. Some w \<notin> map_of (connections st) ` set as \<longrightarrow> sockets st' w = sockets st w)
           \<and> (\<forall>a. a \<notin> set as \<longrightarrow> map_of (connections st') a = map_of (connections st) a)
           \<and> (\<exists>later. emitted st' = emitted st @ later)
           \<and> (\<forall>a\<in>set as. \<forall>ws. map_of (connections st) a = Some ws \<longrightarrow> pinged now st st' a ws)"
  using assms
proof (induction as arbitrary: st)
  case Nil
  then show ?case by simp
next
  case (Cons a as)
  from Cons.prems obtain ws info where ws: "map_of (connections st) a = Some ws"
    and info: "addressToInfo (peerBook st) a = Some info"
    by auto
  from pingConnection_effect [OF ws info, of now] obtain st1 more1 where
    s1: "pingConnection (now a) a st = Return () st1"
    and pb1: "peerBook st1 = peerBook st"
    and so1: "\<forall>w. w \<noteq> ws \<longrightarrow> sockets st1 w = sockets st w"
    and co1: "\<forall>a'. a' \<noteq> a \<longrightarrow> map_of (connections st1) a' = map_of (connections st) a'"
    and em1: "emitted st1 = emitted st @ more1"
    and pg1: "pinged now st st1 a ws"
    by blast
  have nin: "a \<notin> set as" and das: "distinct as" using Cons.prems(1) by simp_all
  have same: "\<forall>a'\<in>set as. map_of (connections st1) a' = map_of (connections st) a'"
    using co1 nin by auto
  have other: "\<forall>a'\<in>set as. map_of (connections st) a' \<noteq> Some ws"
  proof
    fix a' assume a': "a' \<in> set as"
    show "map_of (connections st) a' \<noteq> Some ws"
    proof
      assume "map_of (connections st) a' = Some ws"
      with ws have eq: "map_of (connections st) a' = map_of (connections st) a" by simp
      have "a' \<in> set (a # as)" "a \<in> set (a # as)" using a' by simp_all
      from inj_onD [OF Cons.prems(3) eq this] have "a' = a" .
      with a' nin show False by simp
    qed
  qed
  have p2: "\<forall>a'\<in>set as. map_of (connections st1) a' \<noteq> None"
    using same Cons.prems(2) by simp
  have p3: "inj_on (map_of (connections st1)) (set as)"
  proof (rule inj_onI)
    fix x y assume x: "x \<in> set as" and y: "y \<in> set as"
      and xy: "map_of (connections st1) x = map_of (connections st1) y"
    with same have eq: "map_of (connections st) x = map_of (connections st) y" by simp
    have "x \<in> set (a # as)" "y \<in> set (a # as)" using x y by simp_all
    from inj_onD [OF Cons.prems(3) eq this] show "x = y" .
  qed
  have p4: "\<forall>a'\<in>set as. addressToInfo (peerBook st1) a' \<noteq> None"
    using pb1 Cons.prems(4) by simp
  from Cons.IH [OF das p2 p3 p4] obtain st' more2 where
    r: "pingEach now as st1 = Return () st'"
    and pb: "peerBook st' = peerBook st1"
    and so: "\<forall>w. Some w \<notin> map_of (connections st1) ` set as \<longrightarrow> sockets st' w = sockets st1 w"
    and co: "\<forall>a'. a' \<notin> set as \<longrightarrow> map_of (connections st') a' = map_of (connections st1) a'"
    and em: "emitted st' = emitted st1 @ more2"
    and pg: "\<forall>a'\<in>set as. \<forall>w. map_of (connections st1) a' = Some w \<longrightarrow> pinged now st1 st' a' w"
    by blast
  have img: "map_of (connections st1) ` set as = map_of (connections st) ` set as"
    using same by (auto simp: image_iff)
  have wsfree: "Some ws \<notin> map_of (connections st1) ` set as"
    unfolding img using other by (auto simp: image_iff)
  have c1: "pingEach now (a # as) st = Return () st'" using s1 r by simp
  have c2: "peerBook st' = peerBook st" using pb pb1 by simp
  have c3: "\<forall>w. Some w \<notin> map_of (connections st) ` set (a # as) \<longrightarrow> sockets st' w = sockets st w"
  proof (intro allI impI)
    fix w assume w: "Some w \<notin> map_of (connections st) ` set (a # as)"
    then have "w \<noteq> ws" using ws by (auto simp: image_iff)
    moreover from w have "Some w \<notin> map_of (connections st1) ` set as"
      unfolding img by simp
    ultimately show "sockets st' w = sockets st w" using so so1 by simp
  qed
  have c4: "\<forall>a'. a' \<notin> set (a # as) \<longrightarrow> map_of (connections st') a' = map_of (connections st) a'"
    using co co1 by simp
  have c5: "\<exists>later. emitted st' = emitted st @ later" using em em1 by simp
  have c6: "\<forall>a'\<in>set (a # as). \<forall>w. map_of (connections st) a' = Some w \<longrightarrow> pinged now st st' a' w"
  proof (intro ballI allI impI)
    fix a' w assume a': "a' \<in> set (a # as)" and w: "map_of (connections st) a' = Some w"
    show "pinged now st st' a' w"
    proof (cases "a' = a")
      case True
      with w ws have "w = ws" by simp
      moreover have "sockets st' ws = sockets st1 ws" using so wsfree by simp
      moreover have "map_of (connections st') a = map_of (connections st1) a" using co nin by simp
      ultimately show ?thesis using pinged_stable [OF pg1 _ _ em] True by simp
    next
      case False
      with a' have in_as: "a' \<in> set as" by simp
      with same w have w1: "map_of (connections st1) a' = Some w" by simp
      from other in_as w have "w \<noteq> ws" by auto
      with so1 have "sockets st1 w = sockets st w" by simp
      with pg in_as w1 pb1 show ?thesis by (auto intro: pinged_from)
    qed
  qed
  from c1 c2 c3 c4 c5 c6 show ?case by blast
qed

lemma pingConnections_effect:
  assumes d1: "distinct (map fst (connections st))"
    and d2: "distinct (map snd (connections st))"
    and known: "\<forall>a\<in>set (map fst (connections st)). addressToInfo (peerBook st) a \<noteq> None"
  shows "\<exists>st'. WsEndpoint_pingConnections now st = Return () st'
           \<and> (\<forall>c\<in>set (connections st). pinged now st st' (fst c) (snd c))"
proof -
  have some: "\<forall>a\<in>set (map fst (connections st)). map_of (connections st) a \<noteq> None"
    by (simp add: map_of_eq_None_iff)
  have inj: "inj_on (map_of (connections st)) (set (map fst (connections st)))"
  proof (rule inj_onI)
    fix x y
    assume x: "x \<in> set (map fst (connections st))" and y: "y \<in> set (map fst (connections st))"
      and eq: "map_of (connections st) x = map_of (connections st) y"
    from x obtain w where xw: "map_of (connections st) x = Some w"
      using some by blast
    with eq have yw: "map_of (connections st) y = Some w" by simp
    from xw yw have "(x, w) \<in> set (connections st)" "(y, w) \<in> set (connections st)"
      by (auto dest: map_of_SomeD)
    with d2 show "x = y"
      by (metis distinct_map inj_onD snd_conv prod.inject)
  qed
  from pingEach_effect [OF d1 some inj known, of now] obtain st' where
    r: "pingEach now (map fst (connections st)) st = Return () st'"
    and pg: "\<forall>a\<in>set (map fst (connections st)). \<forall>ws. map_of (connections st) a = Some ws
               \<longrightarrow> pinged now st st' a ws"
    by blast
  have "\<forall>c\<in>set (connections st). pinged now st st' (fst c) (snd c)"
  proof
    fix c assume c: "c \<in> set (connections st)"
    then have "(fst c, snd c) \<in> set (connections st)" by simp
    then have "map_of (connections st) (fst c) = Some (snd c)"
      by (rule map_of_is_SomeI [OF d1])
    moreover from c have "fst c \<in> set (map fst (connections st))" by simp
    ultimately show "pinged now st st' (fst c) (snd c)" using pg by blast
  qed
  with r show ?thesis by (auto simp: WsEndpoint_pingConnections_def)
qed

lemma pinged_cases:
  assumes "pinged now st st' a ws"
  shows "(respondedPong (sockets st ws) = Some False \<longrightarrow>
            sockets st' ws =
              (sockets st ws)\<lparr>calls := calls (sockets st ws) @
                 [if impl (sockets st ws) = WsLib then CallTerminate else CallClose0]\<rparr>
            \<and> \<not> WsEndpoint_isConnected a st'
            \<and> (''streamr:peer:disconnect'',
                 [ArgPeer (addressToInfo (peerBook st) a),
                  ArgStr ''streamr:endpoint:dead-connection'']) \<in> set (emitted st'))
       \<and> (respondedPong (sockets st ws) \<noteq> Some False \<and> throws (sockets st ws) CallPing = None \<longrightarrow>
            sockets st' ws =
              (sockets st ws)\<lparr>respondedPong := Some False, rttStart := Some (now a),
                               calls := calls (sockets st ws) @ [CallPing]\<rparr>
            \<and> map_of (connections st') a = Some ws)
       \<and> (respondedPong (sockets st ws) \<noteq> Some False \<and> throws (sockets st ws) CallPing \<noteq> None \<longrightarrow>
            sockets st' ws =
              (sockets st ws)\<lparr>respondedPong := Some False, rttStart := Some (now a),
                               calls := calls (sockets st ws) @
                                 [CallPing,
                                  if impl (sockets st ws) = WsLib then CallTerminate else CallClose0]\<rparr>
            \<and> \<not> WsEndpoint_isConnected a st'
            \<and> (''streamr:peer:disconnect'',
                 [ArgPeer (addressToInfo (peerBook st) a),
                  ArgStr ''streamr:endpoint:dead-connection'']) \<in> set (emitted st'))"
  using assms
  by (simp add: pinged_def Let_def WsEndpoint_isConnected_def events_PEER_DISCONNECTED_def
      disconnectionReasons_DEAD_CONNECTION_def split: if_splits)

text \<open>
  C3. One firing of the liveness timer, on an endpoint whose connection map holds each
  address and each socket once and whose peer book knows every connected address. It returns,
  and for each connection: when the last ping was not answered (the flag \<open>respondedPong\<close>
  is defined and false) the socket is terminated, the connection entry is removed and
  PEER_DISCONNECTED is emitted with the reason \<open>streamr:endpoint:dead-connection\<close>, through
  \<open>_onClose\<close> with the code 1002; otherwise the flag is cleared, \<open>rttStart\<close> is set to the
  current time and \<open>ping\<close> is called on the socket, and the connection is kept, unless the
  library raises on that \<open>ping\<close>, which ends the connection like an unanswered ping.

  A pong sets the flag and sets \<open>rtt\<close> to the current time minus \<open>rttStart\<close>: on the
  socket itself for a dialled socket, and for a socket of the server on the connection that
  is registered for the address of the socket.
\<close>

theorem liveness_ping_pong:
  "(distinct (map fst (connections st)) \<and> distinct (map snd (connections st))
      \<and> (\<forall>a\<in>set (map fst (connections st)). addressToInfo (peerBook st) a \<noteq> None) \<longrightarrow>
      (\<exists>st'. WsEndpoint_pingConnections now st = Return () st'
         \<and> (\<forall>c\<in>set (connections st).
              (respondedPong (sockets st (snd c)) = Some False \<longrightarrow>
                 sockets st' (snd c) =
                   (sockets st (snd c))\<lparr>calls := calls (sockets st (snd c)) @
                      [if impl (sockets st (snd c)) = WsLib then CallTerminate else CallClose0]\<rparr>
                 \<and> \<not> WsEndpoint_isConnected (fst c) st'
                 \<and> (''streamr:peer:disconnect'',
                      [ArgPeer (addressToInfo (peerBook st) (fst c)),
                       ArgStr ''streamr:endpoint:dead-connection'']) \<in> set (emitted st'))
            \<and> (respondedPong (sockets st (snd c)) \<noteq> Some False
                  \<and> throws (sockets st (snd c)) CallPing = None \<longrightarrow>
                 sockets st' (snd c) =
                   (sockets st (snd c))\<lparr>respondedPong := Some False, rttStart := Some (now (fst c)),
                                         calls := calls (sockets st (snd c)) @ [CallPing]\<rparr>
                 \<and> map_of (connections st') (fst c) = Some (snd c))
            \<and> (respondedPong (sockets st (snd c)) \<noteq> Some False
                  \<and> throws (sockets st (snd c)) CallPing \<noteq> None \<longrightarrow>
                 sockets st' (snd c) =
                   (sockets st (snd c))\<lparr>respondedPong := Some False, rttStart := Some (now (fst c)),
                                         calls := calls (sockets st (snd c)) @
                                           [CallPing,
                                            if impl (sockets st (snd c)) = WsLib then CallTerminate
                                            else CallClose0]\<rparr>
                 \<and> \<not> WsEndpoint_isConnected (fst c) st'
                 \<and> (''streamr:peer:disconnect'',
                      [ArgPeer (addressToInfo (peerBook st) (fst c)),
                       ArgStr ''streamr:endpoint:dead-connection'']) \<in> set (emitted st')))))
   \<and> (addressToInfo (peerBook st) a = Some info \<longrightarrow>
        pingFailed (Some ws) a st =
          WsEndpoint_onClose a info 1002 ''streamr:endpoint:dead-connection'' (terminateWs ws st))
   \<and> ((respondedPong (sockets st ws) \<noteq> None \<and> \<not> truthy (respondedPong (sockets st ws)))
        \<longleftrightarrow> respondedPong (sockets st ws) = Some False)
   \<and> WsEndpoint_client_pong time ws st =
       st\<lparr>sockets := (sockets st)(ws := (sockets st ws)
            \<lparr>respondedPong := Some True,
             rtt := Some (case rttStart (sockets st ws) of None \<Rightarrow> NaN | Some started \<Rightarrow> Millis (time - started))\<rparr>)\<rparr>
   \<and> (rttStart (sockets st ws) = Some started \<longrightarrow>
        respondedPong (sockets (WsEndpoint_client_pong time ws st) ws) = Some True
        \<and> rtt (sockets (WsEndpoint_client_pong time ws st) ws) = Some (Millis (time - started)))
   \<and> (ws_address (sockets st ws) = Some a \<and> map_of (connections st) a = Some w
        \<and> rttStart (sockets st w) = Some started \<longrightarrow>
        respondedPong (sockets (WsEndpoint_server_pong time ws st) w) = Some True
        \<and> rtt (sockets (WsEndpoint_server_pong time ws st) w) = Some (Millis (time - started)))"
proof -
  have p1: "distinct (map fst (connections st)) \<and> distinct (map snd (connections st))
      \<and> (\<forall>a\<in>set (map fst (connections st)). addressToInfo (peerBook st) a \<noteq> None) \<longrightarrow>
      (\<exists>st'. WsEndpoint_pingConnections now st = Return () st'
         \<and> (\<forall>c\<in>set (connections st).
              (respondedPong (sockets st (snd c)) = Some False \<longrightarrow>
                 sockets st' (snd c) =
                   (sockets st (snd c))\<lparr>calls := calls (sockets st (snd c)) @
                      [if impl (sockets st (snd c)) = WsLib then CallTerminate else CallClose0]\<rparr>
                 \<and> \<not> WsEndpoint_isConnected (fst c) st'
                 \<and> (''streamr:peer:disconnect'',
                      [ArgPeer (addressToInfo (peerBook st) (fst c)),
                       ArgStr ''streamr:endpoint:dead-connection'']) \<in> set (emitted st'))
            \<and> (respondedPong (sockets st (snd c)) \<noteq> Some False
                  \<and> throws (sockets st (snd c)) CallPing = None \<longrightarrow>
                 sockets st' (snd c) =
                   (sockets st (snd c))\<lparr>respondedPong := Some False, rttStart := Some (now (fst c)),
                                         calls := calls (sockets st (snd c)) @ [CallPing]\<rparr>
                 \<and> map_of (connections st') (fst c) = Some (snd c))
            \<and> (respondedPong (sockets st (snd c)) \<noteq> Some False
                  \<and> throws (sockets st (snd c)) CallPing \<noteq> None \<longrightarrow>
                 sockets st' (snd c) =
                   (sockets st (snd c))\<lparr>respondedPong := Some False, rttStart := Some (now (fst c)),
                                         calls := calls (sockets st (snd c)) @
                                           [CallPing,
                                            if impl (sockets st (snd c)) = WsLib then CallTerminate
                                            else CallClose0]\<rparr>
                 \<and> \<not> WsEndpoint_isConnected (fst c) st'
                 \<and> (''streamr:peer:disconnect'',
                      [ArgPeer (addressToInfo (peerBook st) (fst c)),
                       ArgStr ''streamr:endpoint:dead-connection'']) \<in> set (emitted st'))))"
  proof
    assume h: "distinct (map fst (connections st)) \<and> distinct (map snd (connections st))
      \<and> (\<forall>a\<in>set (map fst (connections st)). addressToInfo (peerBook st) a \<noteq> None)"
    then have d1: "distinct (map fst (connections st))"
      and d2: "distinct (map snd (connections st))"
      and kn: "\<forall>a\<in>set (map fst (connections st)). addressToInfo (peerBook st) a \<noteq> None"
      by blast+
    from pingConnections_effect [OF d1 d2 kn, of now] obtain st' where
      r: "WsEndpoint_pingConnections now st = Return () st'"
      and pg: "\<forall>c\<in>set (connections st). pinged now st st' (fst c) (snd c)"
      by blast
    show "\<exists>st'. WsEndpoint_pingConnections now st = Return () st'
         \<and> (\<forall>c\<in>set (connections st).
              (respondedPong (sockets st (snd c)) = Some False \<longrightarrow>
                 sockets st' (snd c) =
                   (sockets st (snd c))\<lparr>calls := calls (sockets st (snd c)) @
                      [if impl (sockets st (snd c)) = WsLib then CallTerminate else CallClose0]\<rparr>
                 \<and> \<not> WsEndpoint_isConnected (fst c) st'
                 \<and> (''streamr:peer:disconnect'',
                      [ArgPeer (addressToInfo (peerBook st) (fst c)),
                       ArgStr ''streamr:endpoint:dead-connection'']) \<in> set (emitted st'))
            \<and> (respondedPong (sockets st (snd c)) \<noteq> Some False
                  \<and> throws (sockets st (snd c)) CallPing = None \<longrightarrow>
                 sockets st' (snd c) =
                   (sockets st (snd c))\<lparr>respondedPong := Some False, rttStart := Some (now (fst c)),
                                         calls := calls (sockets st (snd c)) @ [CallPing]\<rparr>
                 \<and> map_of (connections st') (fst c) = Some (snd c))
            \<and> (respondedPong (sockets st (snd c)) \<noteq> Some False
                  \<and> throws (sockets st (snd c)) CallPing \<noteq> None \<longrightarrow>
                 sockets st' (snd c) =
                   (sockets st (snd c))\<lparr>respondedPong := Some False, rttStart := Some (now (fst c)),
                                         calls := calls (sockets st (snd c)) @
                                           [CallPing,
                                            if impl (sockets st (snd c)) = WsLib then CallTerminate
                                            else CallClose0]\<rparr>
                 \<and> \<not> WsEndpoint_isConnected (fst c) st'
                 \<and> (''streamr:peer:disconnect'',
                      [ArgPeer (addressToInfo (peerBook st) (fst c)),
                       ArgStr ''streamr:endpoint:dead-connection'']) \<in> set (emitted st')))"
    proof (intro exI conjI ballI)
      show "WsEndpoint_pingConnections now st = Return () st'" by (rule r)
    next
      fix c assume "c \<in> set (connections st)"
      with pg have "pinged now st st' (fst c) (snd c)" by blast
      from pinged_cases [OF this]
      show "respondedPong (sockets st (snd c)) = Some False \<longrightarrow>
                 sockets st' (snd c) =
                   (sockets st (snd c))\<lparr>calls := calls (sockets st (snd c)) @
                      [if impl (sockets st (snd c)) = WsLib then CallTerminate else CallClose0]\<rparr>
                 \<and> \<not> WsEndpoint_isConnected (fst c) st'
                 \<and> (''streamr:peer:disconnect'',
                      [ArgPeer (addressToInfo (peerBook st) (fst c)),
                       ArgStr ''streamr:endpoint:dead-connection'']) \<in> set (emitted st')"
        and "respondedPong (sockets st (snd c)) \<noteq> Some False
                  \<and> throws (sockets st (snd c)) CallPing = None \<longrightarrow>
                 sockets st' (snd c) =
                   (sockets st (snd c))\<lparr>respondedPong := Some False, rttStart := Some (now (fst c)),
                                         calls := calls (sockets st (snd c)) @ [CallPing]\<rparr>
                 \<and> map_of (connections st') (fst c) = Some (snd c)"
        and "respondedPong (sockets st (snd c)) \<noteq> Some False
                  \<and> throws (sockets st (snd c)) CallPing \<noteq> None \<longrightarrow>
                 sockets st' (snd c) =
                   (sockets st (snd c))\<lparr>respondedPong := Some False, rttStart := Some (now (fst c)),
                                         calls := calls (sockets st (snd c)) @
                                           [CallPing,
                                            if impl (sockets st (snd c)) = WsLib then CallTerminate
                                            else CallClose0]\<rparr>
                 \<and> \<not> WsEndpoint_isConnected (fst c) st'
                 \<and> (''streamr:peer:disconnect'',
                      [ArgPeer (addressToInfo (peerBook st) (fst c)),
                       ArgStr ''streamr:endpoint:dead-connection'']) \<in> set (emitted st')"
        by blast+
    qed
  qed
  have p2: "addressToInfo (peerBook st) a = Some info \<longrightarrow>
        pingFailed (Some ws) a st =
          WsEndpoint_onClose a info 1002 ''streamr:endpoint:dead-connection'' (terminateWs ws st)"
    by (simp add: pingFailed_def Let_def PeerBook_getPeerInfo_def terminateWs_def invoke_def
        update_socket_def disconnectionCodes_DEAD_CONNECTION_def
        disconnectionReasons_DEAD_CONNECTION_def)
  have p3: "(respondedPong (sockets st ws) \<noteq> None \<and> \<not> truthy (respondedPong (sockets st ws)))
        \<longleftrightarrow> respondedPong (sockets st ws) = Some False"
    by (rule not_answered_iff)
  have p4: "WsEndpoint_client_pong time ws st =
       st\<lparr>sockets := (sockets st)(ws := (sockets st ws)
            \<lparr>respondedPong := Some True,
             rtt := Some (case rttStart (sockets st ws) of None \<Rightarrow> NaN | Some started \<Rightarrow> Millis (time - started))\<rparr>)\<rparr>"
    by (simp add: WsEndpoint_client_pong_def update_socket_def ponged_def)
  have p5: "rttStart (sockets st ws) = Some started \<longrightarrow>
        respondedPong (sockets (WsEndpoint_client_pong time ws st) ws) = Some True
        \<and> rtt (sockets (WsEndpoint_client_pong time ws st) ws) = Some (Millis (time - started))"
    by (simp add: WsEndpoint_client_pong_def update_socket_def ponged_def)
  have p6: "ws_address (sockets st ws) = Some a \<and> map_of (connections st) a = Some w
        \<and> rttStart (sockets st w) = Some started \<longrightarrow>
        respondedPong (sockets (WsEndpoint_server_pong time ws st) w) = Some True
        \<and> rtt (sockets (WsEndpoint_server_pong time ws st) w) = Some (Millis (time - started))"
    by (simp add: WsEndpoint_server_pong_def update_socket_def ponged_def)
  show ?thesis
    by (rule conjI [OF p1 conjI [OF p2 conjI [OF p3 conjI [OF p4 conjI [OF p5 p6]]]]])
qed

lemma liveness_examples:
  "connections pingedOnce = [(''ws://127.0.0.1:30451'', 0), (''ws://127.0.0.1:30453'', 1)]"
  "addressToInfo (peerBook pingedOnce) ''ws://127.0.0.1:30451'' = Some \<lparr>peerId = ''a'', peerType = ''node''\<rparr>"
  "addressToInfo (peerBook pingedOnce) ''ws://127.0.0.1:30453'' = Some \<lparr>peerId = ''s'', peerType = ''storage''\<rparr>"
  "respondedPong (sockets pingedOnce 0) = Some False"
  "respondedPong (sockets pingedOnce 1) = Some True"
  "rttStart (sockets pingedOnce 1) = Some 1000" "rtt (sockets pingedOnce 1) = Some (Millis 7)"
  by (simp_all add: pingedOnce_def twoConnections_def storageNode_def greaterNode_def noFault_def
      ep_defs peerTypes_def WsEndpoint_pingConnections_def pingConnection_def
      WsEndpoint_server_pong_def ponged_def truthy_def split del: if_split)

lemma liveness_example_after:
  "calls (sockets (state_of (WsEndpoint_pingConnections (\<lambda>a. 6000) pingedOnce)) 0)
       = [CallPing, CallTerminate]
   \<and> \<not> WsEndpoint_isConnected ''ws://127.0.0.1:30451''
          (state_of (WsEndpoint_pingConnections (\<lambda>a. 6000) pingedOnce))
   \<and> (''streamr:peer:disconnect'',
        [ArgPeer (Some \<lparr>peerId = ''a'', peerType = ''node''\<rparr>),
         ArgStr ''streamr:endpoint:dead-connection''])
       \<in> set (emitted (state_of (WsEndpoint_pingConnections (\<lambda>a. 6000) pingedOnce)))
   \<and> calls (sockets (state_of (WsEndpoint_pingConnections (\<lambda>a. 6000) pingedOnce)) 1)
       = [CallPing, CallPing]
   \<and> respondedPong (sockets (state_of (WsEndpoint_pingConnections (\<lambda>a. 6000) pingedOnce)) 1)
       = Some False
   \<and> rttStart (sockets (state_of (WsEndpoint_pingConnections (\<lambda>a. 6000) pingedOnce)) 1)
       = Some 6000
   \<and> ws_address (sockets (state_of (WsEndpoint_pingConnections (\<lambda>a. 6000) pingedOnce)) 1)
       = Some ''ws://127.0.0.1:30453''
   \<and> map_of (connections (state_of (WsEndpoint_pingConnections (\<lambda>a. 6000) pingedOnce)))
       ''ws://127.0.0.1:30453'' = Some 1"
  by (simp add: pingedOnce_def twoConnections_def storageNode_def greaterNode_def noFault_def
      ep_defs peerTypes_def WsEndpoint_pingConnections_def pingConnection_def pingFailed_def
      WsEndpoint_onClose_def terminateWs_def WsEndpoint_server_pong_def ponged_def truthy_def
      events_PEER_DISCONNECTED_def disconnectionReasons_DEAD_CONNECTION_def
      disconnectionReasons_DUPLICATE_SOCKET_def split del: if_split)

theorem liveness_ping_pong_witness:
  "returned (WsEndpoint_pingConnections (\<lambda>a. 6000) pingedOnce) = Some ()
   \<and> calls (sockets (state_of (WsEndpoint_pingConnections (\<lambda>a. 6000) pingedOnce)) 0)
       = [CallPing, CallTerminate]
   \<and> \<not> WsEndpoint_isConnected ''ws://127.0.0.1:30451''
          (state_of (WsEndpoint_pingConnections (\<lambda>a. 6000) pingedOnce))
   \<and> (''streamr:peer:disconnect'',
        [ArgPeer (Some \<lparr>peerId = ''a'', peerType = ''node''\<rparr>),
         ArgStr ''streamr:endpoint:dead-connection''])
       \<in> set (emitted (state_of (WsEndpoint_pingConnections (\<lambda>a. 6000) pingedOnce)))
   \<and> calls (sockets (state_of (WsEndpoint_pingConnections (\<lambda>a. 6000) pingedOnce)) 1)
       = [CallPing, CallPing]
   \<and> rttStart (sockets (state_of (WsEndpoint_pingConnections (\<lambda>a. 6000) pingedOnce)) 1)
       = Some 6000
   \<and> map_of (connections (state_of (WsEndpoint_pingConnections (\<lambda>a. 6000) pingedOnce)))
       ''ws://127.0.0.1:30453'' = Some 1
   \<and> rtt (sockets (WsEndpoint_server_pong 6004 1
                     (state_of (WsEndpoint_pingConnections (\<lambda>a. 6000) pingedOnce))) 1)
       = Some (Millis 4)"
proof -
  note ex = liveness_examples
  let ?now = "\<lambda>a::string. 6000::int"
  let ?st' = "state_of (WsEndpoint_pingConnections ?now pingedOnce)"
  have hyp: "distinct (map fst (connections pingedOnce)) \<and> distinct (map snd (connections pingedOnce))
      \<and> (\<forall>a\<in>set (map fst (connections pingedOnce)). addressToInfo (peerBook pingedOnce) a \<noteq> None)"
    by (simp add: ex)
  from liveness_ping_pong [where st = pingedOnce and now = ?now, THEN conjunct1, THEN mp, OF hyp]
  obtain st' where "WsEndpoint_pingConnections ?now pingedOnce = Return () st'"
    by blast
  then have r: "returned (WsEndpoint_pingConnections ?now pingedOnce) = Some ()"
    by simp
  note after = liveness_example_after
  have h6: "ws_address (sockets ?st' 1) = Some ''ws://127.0.0.1:30453''
      \<and> map_of (connections ?st') ''ws://127.0.0.1:30453'' = Some 1
      \<and> rttStart (sockets ?st' 1) = Some 6000"
    using after by blast
  have pong: "rtt (sockets (WsEndpoint_server_pong 6004 1 ?st') 1) = Some (Millis 4)"
    using liveness_ping_pong [where st = ?st' and ws = 1 and a = "''ws://127.0.0.1:30453''"
        and w = 1 and started = 6000 and time = 6004, THEN conjunct2, THEN conjunct2, THEN conjunct2,
        THEN conjunct2, THEN conjunct2, THEN mp, OF h6]
    by simp
  from r after pong show ?thesis by blast
qed

section \<open>Resend handler: cancelling\<close>







section \<open>Resend handler: reading a strategy\<close>


















section \<open>Resend handler: the inactivity timer\<close>














section \<open>What leaves the bookkeeping of the dials alone\<close>

lemma dview_emit [simp]: "dview (emit n a st) = dview st"
  by (simp add: dview_def emit_def dial_keys_def)

lemma dview_metrics [simp]: "dview (metrics_record n v st) = dview st"
  by (simp add: dview_def metrics_record_def dial_keys_def)

lemma dview_update_socket [simp]: "dview (update_socket ws f st) = dview st"
  by (simp add: dview_def update_socket_def dial_keys_def)

lemma dview_invoke [simp]: "dview (snd (invoke ws c st)) = dview st"
  by (simp add: invoke_def)

lemma dview_invoke' [simp]: "invoke ws c st = (r, st') \<Longrightarrow> dview st' = dview st"
  by (auto simp: invoke_def)

lemma dview_closeWs [simp]: "dview (closeWs ws code reason st) = dview st"
  by (simp add: closeWs_def)

lemma dview_terminateWs [simp]: "dview (terminateWs ws st) = dview st"
  by (simp add: terminateWs_def)

lemma dview_connections [simp]: "dview (st\<lparr>connections := c\<rparr>) = dview st"
  by (simp add: dview_def dial_keys_def)

lemma dview_peerBook [simp]: "dview (st\<lparr>peerBook := c\<rparr>) = dview st"
  by (simp add: dview_def dial_keys_def)

lemma dview_onClose [simp]: "dview (state_of (WsEndpoint_onClose a i c r st)) = dview st"
  by (simp add: WsEndpoint_onClose_def Let_def split: sum.splits)

lemma dview_onNewConnection [simp]: "dview (snd (WsEndpoint_onNewConnection ws a i out st)) = dview st"
  by (simp add: WsEndpoint_onNewConnection_def Let_def)

lemma dview_dropIncoming [simp]: "dview (dropIncoming ws e st) = dview st"
  by (simp add: dropIncoming_def)

lemma dview_onIncoming [simp]: "dview (WsEndpoint_onIncomingConnection ws st) = dview st"
  by (simp add: WsEndpoint_onIncomingConnection_def Let_def split: sum.splits prod.splits option.splits)

lemma dview_server_open [simp]: "dview (server_open sock st) = dview st"
  by (simp add: server_open_def) (simp add: dview_def dial_keys_def)

lemma dview_server_close [simp]: "dview (state_of (WsEndpoint_server_close ws c r st)) = dview st"
  by (simp add: WsEndpoint_server_close_def Let_def split: sum.splits option.splits)

lemma dview_client_close [simp]: "dview (state_of (WsEndpoint_client_close a c r st)) = dview st"
  by (simp add: WsEndpoint_client_close_def Let_def split: sum.splits option.splits)

lemma dview_pongs [simp]:
  "dview (WsEndpoint_client_pong now ws st) = dview st"
  "dview (WsEndpoint_server_pong now ws st) = dview st"
  by (simp_all add: WsEndpoint_client_pong_def WsEndpoint_server_pong_def split: option.splits)

lemma dview_evaluate [simp]: "dview (WsEndpoint_evaluateBackPressure ws st) = dview st"
  by (simp add: WsEndpoint_evaluateBackPressure_def Let_def)

lemma dview_pingFailed [simp]: "dview (state_of (pingFailed w a st)) = dview st"
  by (simp add: pingFailed_def Let_def split: sum.splits option.splits)

lemma dview_pingConnection [simp]: "dview (state_of (pingConnection now a st)) = dview st"
  by (simp add: pingConnection_def Let_def split: sum.splits option.splits prod.splits)

lemma dview_pingEach [simp]: "dview (state_of (pingEach now as st)) = dview st"
proof (induction as arbitrary: st)
  case Nil
  then show ?case by simp
next
  case (Cons a as)
  show ?case
  proof (cases "pingConnection (now a) a st")
    case (Return u st')
    then have "dview st' = dview st" using dview_pingConnection [of "now a" a st] by simp
    with Return Cons show ?thesis by simp
  next
    case (Throw e st')
    then have "dview st' = dview st" using dview_pingConnection [of "now a" a st] by simp
    with Throw show ?thesis by simp
  qed
qed

lemma dview_ping [simp]: "dview (state_of (WsEndpoint_pingConnections now st)) = dview st"
  by (simp add: WsEndpoint_pingConnections_def)

lemma dview_socketSend [simp]: "dview (snd (WsEndpoint_socketSend ws m rid ra st)) = dview st"
  by (simp add: WsEndpoint_socketSend_def onSuccess_def split: prod.splits option.splits)

lemma dview_send [simp]: "dview (state_of (WsEndpoint_send rid m st)) = dview st"
proof -
  have "\<And>ws ra p st'. WsEndpoint_socketSend ws m rid ra st = (p, st') \<Longrightarrow> dview st' = dview st"
    using dview_socketSend by (metis snd_conv)
  then show ?thesis
    by (auto simp: WsEndpoint_send_def split: sum.splits option.splits prod.splits)
qed

lemma dview_close [simp]: "dview (state_of (WsEndpoint_close rid r st)) = dview st"
  by (simp add: WsEndpoint_close_def Let_def split: sum.splits option.splits)


section \<open>The invariant of the dials\<close>

lemma filter_le_one:
  "distinct (map f xs) \<Longrightarrow> (\<forall>x\<in>set xs. P x \<longrightarrow> f x = c) \<Longrightarrow> length (filter P xs) \<le> Suc 0"
proof (induction xs)
  case Nil
  then show ?case by simp
next
  case (Cons x xs)
  show ?case
  proof (cases "P x")
    case True
    then have fx: "f x = c" using Cons.prems by simp
    have "filter P xs = []"
    proof (rule ccontr)
      assume "filter P xs \<noteq> []"
      then obtain y where y: "y \<in> set xs" "P y" by (metis filter_False)
      then have "f y = c" using Cons.prems by simp
      with fx y Cons.prems(1) show False by (auto simp: image_iff)
    qed
    with True show ?thesis by simp
  next
    case False
    with Cons show ?thesis by simp
  qed
qed

lemma dinv_inflight:
  assumes "dinv (dview st)"
  shows "length (inflight st a) \<le> 1"
proof (cases "map_of (pendingConnections st) a")
  case None
  have "filter (\<lambda>wd. dial_address (snd wd) = a \<and> promises st (dial_promise (snd wd)) = Pending) (dials st) = []"
    using assms None by (auto simp: dinv_def dview_def dial_keys_def filter_empty_conv)
  then show ?thesis by (simp add: inflight_def)
next
  case (Some p)
  have d: "distinct (map (\<lambda>wd. dial_promise (snd wd)) (dials st))"
    using assms by (simp add: dinv_def dview_def dial_keys_def comp_def)
  have "\<forall>wd\<in>set (dials st). (dial_address (snd wd) = a \<and> promises st (dial_promise (snd wd)) = Pending)
           \<longrightarrow> dial_promise (snd wd) = p"
    using assms Some by (auto simp: dinv_def dview_def dial_keys_def)
  from filter_le_one [OF d this] show ?thesis by (simp add: inflight_def)
qed

lemma dinv_Promise_new:
  "dinv (dview st) \<Longrightarrow> Promise_new s st = (p, st') \<Longrightarrow> dinv (dview st') \<and> dial_keys st' = dial_keys st
     \<and> map_of (pendingConnections st') = map_of (pendingConnections st) \<and> p = nextPromise st
     \<and> nextPromise st' = Suc p \<and> pendingConnections st' = pendingConnections st"
proof -
  assume inv: "dinv (dview st)" and pn: "Promise_new s st = (p, st')"
  have st': "st' = st\<lparr>promises := (promises st)(nextPromise st := s), nextPromise := Suc (nextPromise st)\<rparr>"
    and p: "p = nextPromise st"
    using pn by (auto simp: Promise_new_def)
  have lt: "\<forall>k\<in>set (dial_keys st). snd k < nextPromise st"
    using inv by (simp add: dinv_def dview_def)
  have "dinv (dial_keys st, (promises st)(nextPromise st := s), map_of (pendingConnections st), Suc (nextPromise st))"
    using inv lt unfolding dinv_def dview_def
    by (auto simp: less_Suc_eq)
  moreover have "dview st' = (dial_keys st, (promises st)(nextPromise st := s), map_of (pendingConnections st), Suc (nextPromise st))"
    by (simp add: st' dview_def dial_keys_def)
  ultimately show ?thesis
    by (simp add: st' p dial_keys_def)
qed

lemma dinv_settle:
  assumes "dinv (dview st)" "(a, p) \<in> set (dial_keys st)" "outcome \<noteq> Pending"
  shows "dinv (dview (settle p a outcome st))"
proof (cases "promises st p = Pending")
  case False
  then show ?thesis using assms by (simp add: settle_def)
next
  case True
  have pa: "map_of (pendingConnections st) a = Some p"
    using assms True by (force simp: dinv_def dview_def)
  have eq: "dview (settle p a outcome st)
      = (dial_keys st, (promises st)(p := outcome), (map_of (pendingConnections st))(a := None), nextPromise st)"
    using True by (simp add: settle_def dview_def dial_keys_def delete_conv')
  show ?thesis
    unfolding eq using assms pa
    by (auto simp: dinv_def dview_def)
qed

lemma dial_keys_update:
  "map_of ds ws = Some d \<Longrightarrow> dial_address d' = dial_address d \<Longrightarrow> dial_promise d' = dial_promise d \<Longrightarrow>
   map (\<lambda>wd. (dial_address (snd wd), dial_promise (snd wd))) (AList.update ws d' ds)
   = map (\<lambda>wd. (dial_address (snd wd), dial_promise (snd wd))) ds"
  by (induction ds) (auto split: if_splits)

lemma dview_dials_update:
  "map_of (dials st) ws = Some d \<Longrightarrow> dial_address d' = dial_address d \<Longrightarrow> dial_promise d' = dial_promise d \<Longrightarrow>
   dview (st\<lparr>dials := AList.update ws d' (dials st)\<rparr>) = dview st"
  by (simp add: dview_def dial_keys_def dial_keys_update)

lemma dial_in_keys:
  "map_of (dials st) ws = Some d \<Longrightarrow> (dial_address d, dial_promise d) \<in> set (dial_keys st)"
  by (force simp: dial_keys_def dest: map_of_SomeD)

lemma dview_dial_upgrade [simp]: "dview (state_of (dial_upgrade ws pid pt st)) = dview st"
  by (auto simp: dial_upgrade_def dview_dials_update split: option.splits sum.splits)

lemma dinv_dview_cong: "dview st' = dview st \<Longrightarrow> dinv (dview st) \<Longrightarrow> dinv (dview st')"
  by simp

lemma dinv_dial_error: "dinv (dview st) \<Longrightarrow> dinv (dview (state_of (dial_error ws err st)))"
proof (cases "map_of (dials st) ws")
  case None
  assume "dinv (dview st)"
  with None show ?thesis by (simp add: dial_error_def)
next
  case (Some d)
  assume inv: "dinv (dview st)"
  let ?st1 = "terminateWs ws (metrics_record ''webSocketError'' 1 st)"
  have v: "dview ?st1 = dview st" by simp
  then have "dinv (dview ?st1)" "(dial_address d, dial_promise d) \<in> set (dial_keys ?st1)"
    using inv dial_in_keys [OF Some] by (simp_all add: dview_def)
  from dinv_settle [OF this] Some show ?thesis by (simp add: dial_error_def)
qed

lemma dinv_dial_open: "dinv (dview st) \<Longrightarrow> dinv (dview (state_of (dial_open ws st)))"
proof (cases "map_of (dials st) ws")
  case None
  assume "dinv (dview st)"
  with None show ?thesis by (simp add: dial_open_def)
next
  case (Some d)
  assume inv: "dinv (dview st)"
  note key = dial_in_keys [OF Some]
  show ?thesis
  proof (cases "serverPeerInfo d")
    case None
    let ?st1 = "metrics_record ''open:headersNotReceived'' 1 (terminateWs ws st)"
    have "dview ?st1 = dview st" by simp
    then have "dinv (dview ?st1)" "(dial_address d, dial_promise d) \<in> set (dial_keys ?st1)"
      using inv key by (simp_all add: dview_def)
    from dinv_settle [OF this] Some None show ?thesis by (simp add: dial_open_def)
  next
    case (Some info)
    let ?st0 = "st\<lparr>dials := AList.update ws (d\<lparr>listening := True\<rparr>) (dials st)\<rparr>"
    have v0: "dview ?st0 = dview st"
      using \<open>map_of (dials st) ws = Some d\<close> by (simp add: dview_dials_update)
    obtain r st1 where r: "WsEndpoint_onNewConnection ws (dial_address d) info True ?st0 = (r, st1)"
      by (cases "WsEndpoint_onNewConnection ws (dial_address d) info True ?st0")
    have v1: "dview st1 = dview st"
      using dview_onNewConnection [of ws "dial_address d" info True ?st0] r v0 by simp
    then have i1: "dinv (dview st1)" "(dial_address d, dial_promise d) \<in> set (dial_keys st1)"
      using inv key by (simp_all add: dview_def)
    show ?thesis
      using \<open>map_of (dials st) ws = Some d\<close> Some r i1 dinv_settle [OF i1]
      by (cases r) (auto simp: dial_open_def split: sum.splits)
  qed
qed

lemma dinv_connect_existing:
  assumes "dinv (dview st)"
  shows "dinv (dview (state_of (connect_existing a st)))
         \<and> map_of (pendingConnections (state_of (connect_existing a st))) = map_of (pendingConnections st)
         \<and> dial_keys (state_of (connect_existing a st)) = dial_keys st"
proof (cases "map_of (connections st) a")
  case None
  then show ?thesis using assms by (simp add: connect_existing_def)
next
  case (Some ws)
  show ?thesis
  proof (cases "PeerBook_getPeerId (peerBook st) a")
    case (Inl e)
    with Some assms show ?thesis by (simp add: connect_existing_def)
  next
    case (Inr pid)
    show ?thesis
    proof (cases "readyState (sockets st ws) = OPEN (sockets st ws)")
      case True
      obtain p st' where p: "Promise_new (Resolved pid) st = (p, st')"
        by (cases "Promise_new (Resolved pid) st")
      from dinv_Promise_new [OF assms p] Some Inr True p show ?thesis
        by (simp add: connect_existing_def)
    next
      case False
      have "dview (state_of (WsEndpoint_close pid disconnectionReasons_GRACEFUL_SHUTDOWN st)) = dview st"
        by simp
      then show ?thesis using Some Inr False assms
        by (cases "WsEndpoint_close pid disconnectionReasons_GRACEFUL_SHUTDOWN st")
           (auto simp: connect_existing_def dview_def)
    qed
  qed
qed


lemma dinv_connect:
  assumes inv: "dinv (dview st)"
  shows "dinv (dview (state_of (WsEndpoint_connect a ctor st)))"
proof -
  let ?r = "connect_existing a st"
  note ex = dinv_connect_existing [OF inv, of a]
  show ?thesis
  proof (cases ?r)
    case (Throw e st')
    with ex show ?thesis by (simp add: WsEndpoint_connect_def)
  next
    case (Return po st1)
    with ex have i1: "dinv (dview st1)" by simp
    show ?thesis
    proof (cases po)
      case (Some p)
      with Return i1 show ?thesis by (simp add: WsEndpoint_connect_def)
    next
      case None
      show ?thesis
      proof (cases "a = WsEndpoint_getAddress st1")
        case True
        let ?st2 = "metrics_record ''open:ownAddress'' 1 st1"
        have i2: "dinv (dview ?st2)" using i1 by simp
        obtain p st3 where p: "Promise_new (Rejected (Error ''trying to connect to own address'')) ?st2 = (p, st3)"
          by (cases "Promise_new (Rejected (Error ''trying to connect to own address'')) ?st2")
        from dinv_Promise_new [OF i2 p] Return None True p show ?thesis
          by (simp add: WsEndpoint_connect_def)
      next
        case False
        show ?thesis
        proof (cases "map_of (pendingConnections st1) a")
          case (Some p)
          with Return None False i1 show ?thesis by (simp add: WsEndpoint_connect_def)
        next
          case pn: None
          have nokey: "\<forall>k\<in>set (dial_keys st1). fst k = a \<longrightarrow> promises st1 (snd k) \<noteq> Pending"
            using i1 pn by (auto simp: dinv_def dview_def)
          show ?thesis
          proof (cases ctor)
            case (Inl err)
            let ?st2 = "metrics_record ''open:failedException'' 1 st1"
            have i2: "dinv (dview ?st2)" using i1 by simp
            obtain p st3 where p: "Promise_new (Rejected err) ?st2 = (p, st3)"
              by (cases "Promise_new (Rejected err) ?st2")
            note f = dinv_Promise_new [OF i2 p]
            have pend: "map_of (AList.delete a (AList.update a p (pendingConnections st3)))
                        = map_of (pendingConnections st3)"
              using f pn by (auto simp: delete_conv' update_conv' metrics_record_def)
            have "dview (st3\<lparr>pendingConnections := AList.delete a (AList.update a p (pendingConnections st3))\<rparr>)
                  = dview st3"
              by (simp add: dview_def dial_keys_def pend)
            with f Return None False pn Inl p show ?thesis
              by (simp add: WsEndpoint_connect_def)
          next
            case (Inr sock)
            obtain p st2 where p: "Promise_new Pending st1 = (p, st2)"
              by (cases "Promise_new Pending st1")
            note f = dinv_Promise_new [OF i1 p]
            let ?d = "\<lparr>dial_url = a @ ''/ws?address='' @ WsEndpoint_getAddress st2,
                       dial_headers = toHeaders (peerInfo st2),
                       dial_address = a, dial_promise = p, serverPeerInfo = None, listening = False\<rparr>"
            let ?st3 = "st2\<lparr>sockets := (sockets st2)(nextSocket st2 := sock),
                            nextSocket := Suc (nextSocket st2),
                            dials := dials st2 @ [(nextSocket st2, ?d)],
                            pendingConnections := AList.update a p (pendingConnections st2)\<rparr>"
            have st2: "promises st2 = (promises st1)(p := Pending)" "nextPromise st2 = Suc p"
              "p = nextPromise st1"
              using p by (auto simp: Promise_new_def)
            have v3: "dview ?st3 = (dial_keys st1 @ [(a, p)], (promises st1)(p := Pending),
                        (map_of (pendingConnections st1))(a \<mapsto> p), Suc p)"
              using f st2 by (simp add: dview_def dial_keys_def update_conv')
            have lt: "\<forall>k\<in>set (dial_keys st1). snd k < p"
              using i1 st2 by (simp add: dinv_def dview_def)
            have "dinv (dview ?st3)"
              unfolding v3 using i1 lt nokey
              by (auto simp: dinv_def dview_def)
            with Return None False pn Inr p show ?thesis
              by (simp add: WsEndpoint_connect_def)
          qed
        qed
      qed
    qed
  qed
qed

lemma dinv_step: "dinv (dview st) \<Longrightarrow> dinv (dview (step ev st))"
  by (cases ev) (simp_all add: dinv_connect dinv_dial_open dinv_dial_error WsEndpoint_drain_def
      split: option.splits)

lemma dinv_run: "dinv (dview st) \<Longrightarrow> dinv (dview (run evs st))"
  by (induction evs arbitrary: st) (simp_all add: dinv_step)

lemma dinv_new: "dinv (dview (WsEndpoint_new host port info url cmp))"
  by (simp add: dinv_def dview_def dial_keys_def WsEndpoint_new_def)

section \<open>connect: an open connection or a pending dial is reused\<close>

lemma connect_open_connection:
  assumes "map_of (connections st) x = Some ws"
    and "readyState (sockets st ws) = OPEN (sockets st ws)"
    and "PeerBook_getPeerId (peerBook st) x = Inr pid"
  shows "WsEndpoint_connect x ctor st =
           Return (nextPromise st)
             (st\<lparr>promises := (promises st)(nextPromise st := Resolved pid),
                 nextPromise := Suc (nextPromise st)\<rparr>)"
  using assms by (simp add: WsEndpoint_connect_def connect_existing_def Promise_new_def)

lemma connect_pending_dial:
  assumes "map_of (connections st) x = None" and "x \<noteq> WsEndpoint_getAddress st"
    and "map_of (pendingConnections st) x = Some p"
  shows "WsEndpoint_connect x ctor st = Return p st"
  using assms by (simp add: WsEndpoint_connect_def connect_existing_def)

lemma close_keeps:
  assumes "WsEndpoint_close pid reason st = Return u st'"
  shows "pendingConnections st' = pendingConnections st
         \<and> WsEndpoint_getAddress st' = WsEndpoint_getAddress st
         \<and> dials st' = dials st \<and> nextSocket st' = nextSocket st"
  using assms
  by (auto simp: WsEndpoint_close_def Let_def closeWs_def invoke_def update_socket_def
      metrics_record_def WsEndpoint_getAddress_def split: sum.splits option.splits if_splits)

lemma connect_pending_dial_not_open:
  assumes c: "map_of (connections st) x = Some ws"
    and ro: "readyState (sockets st ws) \<noteq> OPEN (sockets st ws)"
    and own: "x \<noteq> WsEndpoint_getAddress st"
    and pend: "map_of (pendingConnections st) x = Some p"
    and ret: "WsEndpoint_connect x ctor st = Return q st'"
  shows "q = p \<and> dials st' = dials st \<and> nextSocket st' = nextSocket st"
proof (cases "PeerBook_getPeerId (peerBook st) x")
  case (Inl e)
  with c ret show ?thesis by (simp add: WsEndpoint_connect_def connect_existing_def)
next
  case (Inr pid)
  show ?thesis
  proof (cases "WsEndpoint_close pid disconnectionReasons_GRACEFUL_SHUTDOWN st")
    case (Throw e st1)
    with c ro Inr ret show ?thesis by (simp add: WsEndpoint_connect_def connect_existing_def)
  next
    case (Return u st1)
    from close_keeps [OF Return] own pend
    have k: "x \<noteq> WsEndpoint_getAddress st1" "map_of (pendingConnections st1) x = Some p"
      "dials st1 = dials st" "nextSocket st1 = nextSocket st"
      by simp_all
    have "WsEndpoint_connect x ctor st = Return p st1"
      using c ro Inr Return k by (simp add: WsEndpoint_connect_def connect_existing_def)
    with ret k show ?thesis by simp
  qed
qed

lemma connect_no_dial_while_pending:
  assumes pend: "map_of (pendingConnections st) x = Some p"
  shows "dials (state_of (WsEndpoint_connect x ctor st)) = dials st
         \<and> nextSocket (state_of (WsEndpoint_connect x ctor st)) = nextSocket st"
proof (cases "connect_existing x st")
  case (Throw e st1)
  then have "st1 = st \<or> (\<exists>pid. WsEndpoint_close pid disconnectionReasons_GRACEFUL_SHUTDOWN st = Throw e st1)"
    by (auto simp: connect_existing_def split: option.splits sum.splits if_splits js.splits prod.splits)
  moreover have "\<And>pid. WsEndpoint_close pid disconnectionReasons_GRACEFUL_SHUTDOWN st = Throw e st1 \<Longrightarrow> st1 = st"
    by (auto simp: WsEndpoint_close_def Let_def split: sum.splits option.splits)
  ultimately have "st1 = st" by blast
  with Throw show ?thesis by (simp add: WsEndpoint_connect_def)
next
  case (Return po st1)
  show ?thesis
  proof (cases po)
    case (Some q)
    with Return have "dials st1 = dials st \<and> nextSocket st1 = nextSocket st"
      by (auto simp: connect_existing_def Promise_new_def
          split: option.splits sum.splits if_splits js.splits)
    with Return Some show ?thesis by (simp add: WsEndpoint_connect_def)
  next
    case None
    with Return have k: "dials st1 = dials st \<and> nextSocket st1 = nextSocket st
        \<and> pendingConnections st1 = pendingConnections st"
      by (auto simp: connect_existing_def Promise_new_def dest: close_keeps
          split: option.splits sum.splits if_splits js.splits)
    with Return None pend show ?thesis
      by (simp add: WsEndpoint_connect_def Promise_new_def metrics_record_def)
  qed
qed

lemma pendingAndAccepted_state:
  "map_of (connections pendingAndAccepted) ''ws://127.0.0.1:30452'' = Some 1
   \<and> readyState (sockets pendingAndAccepted 1) = OPEN (sockets pendingAndAccepted 1)
   \<and> PeerBook_getPeerId (peerBook pendingAndAccepted) ''ws://127.0.0.1:30452'' = Inr ''b''
   \<and> map_of (pendingConnections pendingAndAccepted) ''ws://127.0.0.1:30452'' = Some 0
   \<and> promises pendingAndAccepted 0 = Pending
   \<and> nextPromise pendingAndAccepted = 1
   \<and> map fst (dials pendingAndAccepted) = [0]"
  by (simp add: pendingAndAccepted_def smallerNode_def greaterNode_def noFault_def ep_defs
      peerTypes_def split del: if_split)

text \<open>
  C10, as stated, fails: the smaller node has a dial to \<open>ws://127.0.0.1:30452\<close> pending
  (promise 0, not settled) when its server accepts the socket that node dialled. A further
  \<open>connect\<close> for the address then returns promise 1, already resolved with the peer id, and
  not the pending promise 0.
\<close>

theorem connect_pending_counterexample:
  "map_of (pendingConnections pendingAndAccepted) ''ws://127.0.0.1:30452'' = Some 0
   \<and> promises pendingAndAccepted 0 = Pending
   \<and> returned (WsEndpoint_connect ''ws://127.0.0.1:30452'' (Inr (dialledSocket noFault))
                 pendingAndAccepted) = Some 1
   \<and> returned (WsEndpoint_connect ''ws://127.0.0.1:30452'' (Inr (dialledSocket noFault))
                 pendingAndAccepted) \<noteq> Some 0
   \<and> promises (state_of (WsEndpoint_connect ''ws://127.0.0.1:30452''
                            (Inr (dialledSocket noFault)) pendingAndAccepted)) 1 = Resolved ''b''"
proof -
  note s = pendingAndAccepted_state
  have "WsEndpoint_connect ''ws://127.0.0.1:30452'' (Inr (dialledSocket noFault)) pendingAndAccepted
        = Return 1 (pendingAndAccepted\<lparr>promises := (promises pendingAndAccepted)(1 := Resolved ''b''),
                                        nextPromise := Suc 1\<rparr>)"
    using connect_open_connection [of pendingAndAccepted "''ws://127.0.0.1:30452''" 1 "''b''"] s
    by simp
  with s show ?thesis by simp
qed

text \<open>
  C10, amended. When an open connection to the address is registered, \<open>connect\<close> returns a
  new promise that is already resolved with the known peer id, and changes nothing else: no
  socket is opened. When no connection to the address is registered, the address is not the
  endpoint's own and a dial to it is pending, \<open>connect\<close> returns the promise of that dial
  and changes nothing; when a connection is registered that is not open, it asks that
  connection to close and, if it returns, returns the promise of the pending dial as well. A
  \<open>connect\<close> for an address with a pending dial never opens a socket. And whatever
  happens to a fresh endpoint, at most one dial per address is in flight at any time.
\<close>

theorem connect_idempotent:
  "(map_of (connections st) x = Some ws \<and> readyState (sockets st ws) = OPEN (sockets st ws)
      \<and> PeerBook_getPeerId (peerBook st) x = Inr pid \<longrightarrow>
      WsEndpoint_connect x ctor st =
        Return (nextPromise st)
          (st\<lparr>promises := (promises st)(nextPromise st := Resolved pid),
              nextPromise := Suc (nextPromise st)\<rparr>))
   \<and> (map_of (connections st) x = None \<and> x \<noteq> WsEndpoint_getAddress st
        \<and> map_of (pendingConnections st) x = Some p \<longrightarrow>
      WsEndpoint_connect x ctor st = Return p st)
   \<and> (\<forall>q st'. map_of (connections st) x = Some ws
        \<and> readyState (sockets st ws) \<noteq> OPEN (sockets st ws)
        \<and> x \<noteq> WsEndpoint_getAddress st \<and> map_of (pendingConnections st) x = Some p
        \<and> WsEndpoint_connect x ctor st = Return q st' \<longrightarrow> q = p)
   \<and> (map_of (pendingConnections st) x = Some p \<longrightarrow>
        dials (state_of (WsEndpoint_connect x ctor st)) = dials st
        \<and> nextSocket (state_of (WsEndpoint_connect x ctor st)) = nextSocket st)
   \<and> (\<forall>evs a. length (inflight (run evs (WsEndpoint_new host port info url cmp)) a) \<le> 1)"
proof (intro conjI allI impI)
  show "length (inflight (run evs (WsEndpoint_new host port info url cmp)) a) \<le> 1" for evs a
    by (rule dinv_inflight [OF dinv_run [OF dinv_new]])
qed (auto simp: connect_open_connection connect_pending_dial connect_no_dial_while_pending
      dest: connect_pending_dial_not_open)

lemma closingAndPending_state:
  "map_of (connections closingAndPending) ''ws://127.0.0.1:30452'' = Some 0
   \<and> readyState (sockets closingAndPending 0) \<noteq> OPEN (sockets closingAndPending 0)
   \<and> ''ws://127.0.0.1:30452'' \<noteq> WsEndpoint_getAddress closingAndPending
   \<and> map_of (pendingConnections closingAndPending) ''ws://127.0.0.1:30452'' = Some 1
   \<and> promises closingAndPending 1 = Pending
   \<and> returned (WsEndpoint_connect ''ws://127.0.0.1:30452'' (Inr (dialledSocket noFault))
                 closingAndPending) = Some 1"
  by (simp add: closingAndPending_def smallerNode_def noFault_def ep_defs peerTypes_def
      WsEndpoint_close_def WsEndpoint_resolveAddress_def PeerBook_getAddress_def
      split del: if_split)

theorem connect_idempotent_witness:
  "WsEndpoint_connect ''ws://127.0.0.1:30452'' (Inr (dialledSocket noFault)) pendingAndAccepted
     = Return 1 (pendingAndAccepted\<lparr>promises := (promises pendingAndAccepted)(1 := Resolved ''b''),
                                     nextPromise := 2\<rparr>)
   \<and> dials (state_of (WsEndpoint_connect ''ws://127.0.0.1:30452'' (Inr (dialledSocket noFault))
                         pendingAndAccepted)) = dials pendingAndAccepted
   \<and> WsEndpoint_connect ''ws://127.0.0.1:30452'' (Inl (Error ''unused''))
        (step (EvConnect ''ws://127.0.0.1:30452'' (Inr (dialledSocket noFault))) smallerNode)
     = Return 0 (step (EvConnect ''ws://127.0.0.1:30452'' (Inr (dialledSocket noFault))) smallerNode)
   \<and> returned (WsEndpoint_connect ''ws://127.0.0.1:30452'' (Inr (dialledSocket noFault))
                 closingAndPending) = Some 1
   \<and> length (inflight closingAndPending ''ws://127.0.0.1:30452'') \<le> 1"
proof -
  let ?x = "''ws://127.0.0.1:30452''"
  let ?ctor = "Inr (dialledSocket noFault) :: error + websocket"
  let ?st2 = "step (EvConnect ?x ?ctor) smallerNode"
  note t1 = connect_idempotent [of pendingAndAccepted ?x 1 "''b''" ?ctor 0]
  note t2 = connect_idempotent [of ?st2 ?x 0 "''b''" "Inl (Error ''unused'')" 0]
  note t3 = connect_idempotent [of closingAndPending ?x 0 "''b''" ?ctor 1
      "''127.0.0.1''" 30451 "\<lparr>peerId = ''a'', peerType = ''node''\<rparr>" "Some ''ws://127.0.0.1:30451''"
      compareCodes]
  have s2: "map_of (connections ?st2) ?x = None \<and> ?x \<noteq> WsEndpoint_getAddress ?st2
      \<and> map_of (pendingConnections ?st2) ?x = Some 0"
    by (simp add: smallerNode_def noFault_def ep_defs split del: if_split)
  have c1: "WsEndpoint_connect ?x ?ctor pendingAndAccepted
     = Return 1 (pendingAndAccepted\<lparr>promises := (promises pendingAndAccepted)(1 := Resolved ''b''),
                                     nextPromise := 2\<rparr>)"
    using t1 pendingAndAccepted_state by simp
  have c2: "dials (state_of (WsEndpoint_connect ?x ?ctor pendingAndAccepted)) = dials pendingAndAccepted"
    using t1 pendingAndAccepted_state by simp
  have c3: "WsEndpoint_connect ?x (Inl (Error ''unused'')) ?st2 = Return 0 ?st2"
    using t2 s2 by simp
  have c4: "returned (WsEndpoint_connect ?x ?ctor closingAndPending) = Some 1"
    using closingAndPending_state by simp
  have c5: "length (inflight closingAndPending ?x) \<le> 1"
    using t3 unfolding closingAndPending_def smallerNode_def by blast
  from c1 c2 c3 c4 c5 show ?thesis by blast
qed

section \<open>Two simultaneous dials and the duplicate socket\<close>











end
